theory Spec2Isabelle
  imports Complex_Main
begin

section \<open>Data model (src/types.ts)\<close>

text \<open>
  JavaScript numbers are modelled as exact reals: the statements below are the
  exact-arithmetic reading of the code, without rounding. JavaScript strings are
  modelled as \<^typ>\<open>string\<close>. An optional field (absent or \<open>undefined\<close>) is an
  \<^typ>\<open>'a option\<close>. The fields \<open>id\<close>, \<open>x\<close>, \<open>y\<close>, \<open>width\<close> and
  \<open>height\<close> carry a prefix naming their interface.
\<close>

datatype image_classification = Original | Result | Character | Background | ModelSheet | Video

datatype aspect_ratio = AR_1_1 | AR_3_4 | AR_4_3 | AR_9_16 | AR_16_9

datatype tool = Pan | Select | Text | Pen | Eraser

record image_object =
  img_id :: string
  src :: string
  img_x :: real
  img_y :: real
  img_width :: real
  img_height :: real
  naturalWidth :: real
  naturalHeight :: real
  classification :: image_classification
  name :: "string option"
  prompt :: "string option"
  targetAspectRatio :: "aspect_ratio option"
  modelSheetSrc :: "string option"
  poses :: "string option list option"
  videoSrc :: "string option"
  maskSrc :: "string option"
  poseIndex :: "nat option"
  poseSrc :: "string option"

record text_object =
  txt_id :: string
  content :: string
  txt_x :: real
  txt_y :: real
  txt_width :: real
  txt_height :: real
  fontSize :: real
  fontFamily :: string
  color :: string

record drawing_canvas_object =
  can_id :: string
  can_x :: real
  can_y :: real
  can_width :: real
  can_height :: real
  drawingSrc :: "string option"

record canvas_transform =
  t_x :: real
  t_y :: real
  t_scale :: real

text \<open>
  The state held by the \<open>App\<close> component (src/App.tsx, lines 313-345): the three
  object collections, the layer order, the three selection lists and the session
  fields the operations below read or write. The diagnostics (\<open>debugImages\<close>,
  \<open>detailedError\<close>) and the text typed into the key dialog are left out: no
  operation below reads them. Messages shown to the user are Korean text in
  the source; they are represented by the constructors of \<open>notice\<close> and
  \<open>retry_notice\<close>.
\<close>

datatype notice = SafetyBlocked | PayloadTooLarge | Overloaded503 | QuotaExceeded429 | GenerationFailed

datatype retry_notice = OverloadRetry nat nat | QuotaRetry nat | ErrorRetry nat

record editor_state =
  images :: "image_object list"
  textObjects :: "text_object list"
  drawingCanvases :: "drawing_canvas_object list"
  layerOrder :: "string list"
  transform :: canvas_transform
  selectedImageIds :: "string list"
  selectedTextIds :: "string list"
  selectedDrawingCanvasIds :: "string list"
  activeTool :: tool
  aspectRatio :: aspect_ratio
  projectName :: string
  isLoading :: bool
  loadingMessage :: "retry_notice option"
  errorMessage :: "notice option"
  apiKey :: string
  activeModel :: string
  isApiKeyModalOpen :: bool
  activeImageUI :: "string option"

section \<open>Geometry and transform (Canvas component)\<close>

text \<open>
  \<open>screenToCanvas\<close> is the conversion \<open>handleMouseDown\<close> applies to the pointer
  position relative to the canvas element:
  \<open>((clientX - rect.left - transform.x) / transform.scale, ...)\<close>.
\<close>

definition screenToCanvas :: "real \<times> real \<Rightarrow> canvas_transform \<Rightarrow> real \<times> real" where
  "screenToCanvas p t = ((fst p - t_x t) / t_scale t, (snd p - t_y t) / t_scale t)"

text \<open>
  \<open>handleWheel\<close> (lines 241-253 of the Canvas component). The arguments are
  \<open>e.deltaY\<close> and the pointer position \<open>(mouseX, mouseY)\<close> relative to the canvas
  element; the result is the transform passed to \<open>setTransform\<close>.
\<close>

definition handleWheel :: "real \<Rightarrow> real \<times> real \<Rightarrow> canvas_transform \<Rightarrow> canvas_transform" where
  "handleWheel deltaY mouse t =
     (let scaleAmount = - deltaY * 0.001;
          newScale = min (max 0.1 (t_scale t + scaleAmount)) 5;
          mouseX = fst mouse;
          mouseY = snd mouse;
          newX = mouseX - (mouseX - t_x t) * (newScale / t_scale t);
          newY = mouseY - (mouseY - t_y t) * (newScale / t_scale t)
      in \<lparr>t_x = newX, t_y = newY, t_scale = newScale\<rparr>)"

section \<open>Layer order\<close>

text \<open>
  \<open>handleMoveToFront\<close> (src/App.tsx, lines 371-376), as the function it passes
  to \<open>setLayerOrder\<close>. On the empty list \<open>prev[prev.length - 1]\<close> is
  \<open>undefined\<close>, which is not equal to any id.
\<close>

definition handleMoveToFront :: "string \<Rightarrow> string list \<Rightarrow> string list" where
  "handleMoveToFront i prev =
     (if prev \<noteq> [] \<and> last prev = i then prev
      else filter (\<lambda>item. item \<noteq> i) prev @ [i])"

section \<open>Selecting a node\<close>

datatype node_type = ImageNode | TextNode | DrawingCanvasNode

text \<open>
  \<open>handleNodeSelect\<close> (Canvas component, lines 161-195). \<open>shiftKey\<close> is the only
  field of the mouse event the handler reads. The tests on \<open>activeTool\<close> and on
  the selection lists read the values of the render in which the handler was
  created, that is, those of the state before the call.
\<close>

definition handleNodeSelect :: "bool \<Rightarrow> string \<Rightarrow> node_type \<Rightarrow> editor_state \<Rightarrow> editor_state" where
  "handleNodeSelect shiftKey i ty s =
     (let s1 = s\<lparr>layerOrder := handleMoveToFront i (layerOrder s)\<rparr>;
          s2 = (if activeTool s \<in> {Text, Pen, Eraser} then s1\<lparr>activeTool := Select\<rparr> else s1);
          only = (\<lambda>st. st\<lparr>selectedImageIds := (if ty = ImageNode then [i] else []),
                           selectedTextIds := (if ty = TextNode then [i] else []),
                           selectedDrawingCanvasIds := (if ty = DrawingCanvasNode then [i] else [])\<rparr>);
          isSelected = (i \<in> set (selectedImageIds s) \<or> i \<in> set (selectedTextIds s)
                        \<or> i \<in> set (selectedDrawingCanvasIds s));
          toggle = (\<lambda>prev. if isSelected then filter (\<lambda>j. j \<noteq> i) prev else prev @ [i])
      in if activeTool s \<noteq> Select \<and> activeTool s \<noteq> Pen \<and> activeTool s \<noteq> Eraser then only s2
         else if shiftKey then
           (case ty of
              ImageNode \<Rightarrow> s2\<lparr>selectedImageIds := toggle (selectedImageIds s2)\<rparr>
            | TextNode \<Rightarrow> s2\<lparr>selectedTextIds := toggle (selectedTextIds s2)\<rparr>
            | DrawingCanvasNode \<Rightarrow> s2\<lparr>selectedDrawingCanvasIds := toggle (selectedDrawingCanvasIds s2)\<rparr>)
         else if \<not> isSelected then only s2
         else s2)"

section \<open>Adding and deleting objects\<close>

text \<open>
  What the browser supplies to the handlers: the natural size of an image once
  it has been decoded (\<open>None\<close> when \<open>onload\<close> never fires), the size of the
  canvas element, and the lower-casing of a string that has a character outside
  ASCII, which follows the Unicode case tables of the engine. \<open>Date.now()\<close> is
  an explicit argument \<open>now\<close> of each handler that reads the clock.
\<close>

record browser =
  decodeImage :: "string \<Rightarrow> (real \<times> real) option"
  clientWidth :: real
  clientHeight :: real
  unicodeLower :: "string \<Rightarrow> string"

definition dec_digit :: "nat \<Rightarrow> char" where
  "dec_digit d = ''0123456789'' ! (d mod 10)"

function string_of_nat :: "nat \<Rightarrow> string" where
  "string_of_nat n = (if n < 10 then [dec_digit n] else string_of_nat (n div 10) @ [dec_digit n])"
  by pat_completeness auto
termination
  by (relation "measure (\<lambda>n. n)") auto

declare string_of_nat.simps [simp del]

record add_options =
  opt_prompt :: "string option"
  opt_targetAspectRatio :: "aspect_ratio option"
  opt_x :: "real option"
  opt_y :: "real option"
  opt_width :: "real option"
  opt_height :: "real option"
  opt_id :: "string option"

definition no_options :: add_options where
  "no_options = \<lparr>opt_prompt = None, opt_targetAspectRatio = None, opt_x = None, opt_y = None,
                  opt_width = None, opt_height = None, opt_id = None\<rparr>"

text \<open>\<open>v || d\<close> and \<open>v && {...}\<close> on an optional string: the empty string is falsy.\<close>

definition truthy :: "string option \<Rightarrow> bool" where
  "truthy v = (case v of None \<Rightarrow> False | Some t \<Rightarrow> t \<noteq> [])"

definition keep_truthy :: "string option \<Rightarrow> string option" where
  "keep_truthy v = (if truthy v then v else None)"

text \<open>
  \<open>addImageToCanvas\<close> (src/App.tsx, lines 450-479): the state updates of the
  \<open>img.onload\<close> callback. The transform is the one of the render that created
  the callback.
\<close>

definition addImageToCanvas ::
  "browser \<Rightarrow> nat \<Rightarrow> string \<Rightarrow> image_classification \<Rightarrow> add_options \<Rightarrow> editor_state \<Rightarrow> editor_state" where
  "addImageToCanvas br now imgSrc cls opts s =
     (case decodeImage br imgSrc of
        None \<Rightarrow> s
      | Some (nw, nh) \<Rightarrow>
          let w = (case opt_width opts of Some v \<Rightarrow> v | None \<Rightarrow> nw);
              h = (case opt_height opts of Some v \<Rightarrow> v | None \<Rightarrow> nh);
              newImage = \<lparr>
                img_id = (if truthy (opt_id opts) then the (opt_id opts) else ''img_'' @ string_of_nat now),
                src = imgSrc,
                img_x = (case opt_x opts of Some v \<Rightarrow> v
                         | None \<Rightarrow> (- t_x (transform s) + clientWidth br / 2) / t_scale (transform s) - w / 2),
                img_y = (case opt_y opts of Some v \<Rightarrow> v
                         | None \<Rightarrow> (- t_y (transform s) + clientHeight br / 2) / t_scale (transform s) - h / 2),
                img_width = w,
                img_height = h,
                naturalWidth = nw,
                naturalHeight = nh,
                classification = cls,
                name = None,
                prompt = keep_truthy (opt_prompt opts),
                targetAspectRatio = opt_targetAspectRatio opts,
                modelSheetSrc = None,
                poses = None,
                videoSrc = None,
                maskSrc = None,
                poseIndex = None,
                poseSrc = None\<rparr>
          in s\<lparr>images := images s @ [newImage],
                layerOrder := layerOrder s @ [img_id newImage],
                selectedImageIds := [img_id newImage],
                selectedTextIds := [],
                selectedDrawingCanvasIds := [],
                activeTool := Select\<rparr>)"

text \<open>
  The placeholder text of a new text object, as UTF-8 bytes (the source has a
  Korean string literal).
\<close>

definition placeholderContent :: string where
  "placeholderContent =
     [CHR 0xED, CHR 0x85, CHR 0x8D, CHR 0xEC, CHR 0x8A, CHR 0xA4, CHR 0xED, CHR 0x8A, CHR 0xB8,
      CHR 0xEB, CHR 0xA5, CHR 0xBC, CHR 0x20, CHR 0xEC, CHR 0x9E, CHR 0x85, CHR 0xEB, CHR 0xA0,
      CHR 0xA5, CHR 0xED, CHR 0x95, CHR 0x98, CHR 0xEC, CHR 0x84, CHR 0xB8, CHR 0xEC, CHR 0x9A,
      CHR 0x94]"

text \<open>\<open>addTextToCanvas\<close> (lines 481-498).\<close>

definition addTextToCanvas :: "nat \<Rightarrow> real \<Rightarrow> real \<Rightarrow> editor_state \<Rightarrow> editor_state" where
  "addTextToCanvas now px py s =
     (let newText = \<lparr>txt_id = ''txt_'' @ string_of_nat now, content = placeholderContent,
                      txt_x = px, txt_y = py, txt_width = 300, txt_height = 60,
                      fontSize = 48, fontFamily = ''Arial'', color = ''#000000''\<rparr>
      in s\<lparr>textObjects := textObjects s @ [newText],
            layerOrder := layerOrder s @ [txt_id newText],
            selectedTextIds := [txt_id newText],
            selectedImageIds := [],
            selectedDrawingCanvasIds := []\<rparr>)"

text \<open>\<open>aspectRatio.split(':').map(Number)\<close>.\<close>

fun ratio_parts :: "aspect_ratio \<Rightarrow> real \<times> real" where
  "ratio_parts AR_1_1 = (1, 1)"
| "ratio_parts AR_3_4 = (3, 4)"
| "ratio_parts AR_4_3 = (4, 3)"
| "ratio_parts AR_9_16 = (9, 16)"
| "ratio_parts AR_16_9 = (16, 9)"

definition target_ratio :: "aspect_ratio \<Rightarrow> real" where
  "target_ratio ar = fst (ratio_parts ar) / snd (ratio_parts ar)"

text \<open>\<open>Math.round\<close>: the nearest integer, halves rounded up.\<close>

definition math_round :: "real \<Rightarrow> real" where
  "math_round v = of_int \<lfloor>v + 1 / 2\<rfloor>"

text \<open>\<open>addDrawingCanvas\<close> (lines 500-531).\<close>

definition addDrawingCanvas :: "browser \<Rightarrow> nat \<Rightarrow> editor_state \<Rightarrow> editor_state" where
  "addDrawingCanvas br now s =
     (let ratio = target_ratio (aspectRatio s);
          canvasWidth = (if ratio \<ge> 1 then math_round (1024 * ratio) else 1024);
          canvasHeight = (if ratio \<ge> 1 then 1024 else math_round (1024 / ratio));
          newCanvas = \<lparr>can_id = ''canvas_'' @ string_of_nat now,
                        can_x = (- t_x (transform s) + clientWidth br / 2) / t_scale (transform s)
                                  - canvasWidth / 2,
                        can_y = (- t_y (transform s) + clientHeight br / 2) / t_scale (transform s)
                                  - canvasHeight / 2,
                        can_width = canvasWidth, can_height = canvasHeight,
                        drawingSrc = Some []\<rparr>
      in s\<lparr>drawingCanvases := drawingCanvases s @ [newCanvas],
            layerOrder := layerOrder s @ [can_id newCanvas],
            selectedDrawingCanvasIds := [can_id newCanvas],
            selectedImageIds := [],
            selectedTextIds := [],
            activeTool := Select\<rparr>)"

text \<open>
  \<open>handleAddVideoToCanvas\<close> (lines 1056-1079); \<open>source\<close> is
  \<open>selectedVideoSourceImage\<close>.
\<close>

definition handleAddVideoToCanvas ::
  "nat \<Rightarrow> string \<Rightarrow> aspect_ratio \<Rightarrow> image_object option \<Rightarrow> editor_state \<Rightarrow> editor_state" where
  "handleAddVideoToCanvas now vsrc ar source s =
     (case source of
        None \<Rightarrow> s
      | Some sel \<Rightarrow>
          let newImage = \<lparr>
                img_id = ''vid_'' @ string_of_nat now,
                src = src sel,
                img_x = img_x sel + 50,
                img_y = img_y sel + 50,
                img_width = img_width sel,
                img_height = img_height sel,
                naturalWidth = naturalWidth sel,
                naturalHeight = naturalHeight sel,
                classification = Video,
                name = None,
                prompt = None,
                targetAspectRatio = Some ar,
                modelSheetSrc = None,
                poses = None,
                videoSrc = Some vsrc,
                maskSrc = None,
                poseIndex = None,
                poseSrc = None\<rparr>
          in s\<lparr>images := images s @ [newImage],
                layerOrder := layerOrder s @ [img_id newImage],
                selectedImageIds := [img_id newImage]\<rparr>)"

text \<open>\<open>deleteImages\<close>, \<open>deleteTextObjects\<close>, \<open>deleteDrawingCanvases\<close> (lines 926-945).\<close>

definition deleteImages :: "string list \<Rightarrow> editor_state \<Rightarrow> editor_state" where
  "deleteImages ids s =
     (if ids = [] then s
      else s\<lparr>images := filter (\<lambda>img. img_id img \<notin> set ids) (images s),
              layerOrder := filter (\<lambda>i. i \<notin> set ids) (layerOrder s),
              selectedImageIds := []\<rparr>)"

definition deleteTextObjects :: "string list \<Rightarrow> editor_state \<Rightarrow> editor_state" where
  "deleteTextObjects ids s =
     (if ids = [] then s
      else s\<lparr>textObjects := filter (\<lambda>txt. txt_id txt \<notin> set ids) (textObjects s),
              layerOrder := filter (\<lambda>i. i \<notin> set ids) (layerOrder s),
              selectedTextIds := []\<rparr>)"

definition deleteDrawingCanvases :: "string list \<Rightarrow> editor_state \<Rightarrow> editor_state" where
  "deleteDrawingCanvases ids s =
     (if ids = [] then s
      else s\<lparr>drawingCanvases := filter (\<lambda>c. can_id c \<notin> set ids) (drawingCanvases s),
              layerOrder := filter (\<lambda>i. i \<notin> set ids) (layerOrder s),
              selectedDrawingCanvasIds := []\<rparr>)"

text \<open>The state of a fresh \<open>App\<close> (the \<open>useState\<close> defaults, lines 313-345).\<close>

definition initial_state :: "string \<Rightarrow> editor_state" where
  "initial_state key =
     \<lparr>images = [], textObjects = [], drawingCanvases = [], layerOrder = [],
      transform = \<lparr>t_x = 0, t_y = 0, t_scale = 0.2\<rparr>,
      selectedImageIds = [], selectedTextIds = [], selectedDrawingCanvasIds = [],
      activeTool = Pan, aspectRatio = AR_9_16, projectName = ''Untitled Story'',
      isLoading = False, loadingMessage = None, errorMessage = None,
      apiKey = key, activeModel = ''gemini-2.5-flash-image'',
      isApiKeyModalOpen = False, activeImageUI = None\<rparr>"

text \<open>
  A sequence of add and delete operations, each with the arguments its handler
  receives, and the state it leads to.
\<close>

datatype edit_op =
    AddImage nat string image_classification add_options
  | AddText nat real real
  | AddCanvas nat
  | AddVideo nat string aspect_ratio "image_object option"
  | DeleteImages "string list"
  | DeleteTexts "string list"
  | DeleteCanvases "string list"

fun apply_op :: "browser \<Rightarrow> edit_op \<Rightarrow> editor_state \<Rightarrow> editor_state" where
  "apply_op br (AddImage now imgSrc cls opts) s = addImageToCanvas br now imgSrc cls opts s"
| "apply_op br (AddText now px py) s = addTextToCanvas now px py s"
| "apply_op br (AddCanvas now) s = addDrawingCanvas br now s"
| "apply_op br (AddVideo now vsrc ar source) s = handleAddVideoToCanvas now vsrc ar source s"
| "apply_op br (DeleteImages ids) s = deleteImages ids s"
| "apply_op br (DeleteTexts ids) s = deleteTextObjects ids s"
| "apply_op br (DeleteCanvases ids) s = deleteDrawingCanvases ids s"

fun run_ops :: "browser \<Rightarrow> edit_op list \<Rightarrow> editor_state \<Rightarrow> editor_state" where
  "run_ops br [] s = s"
| "run_ops br (op # ops) s = run_ops br ops (apply_op br op s)"

text \<open>
  Every id of a selection list is the id of a live object of its kind.
\<close>

definition selection_live :: "editor_state \<Rightarrow> bool" where
  "selection_live s =
     (set (selectedImageIds s) \<subseteq> img_id ` set (images s)
      \<and> set (selectedTextIds s) \<subseteq> txt_id ` set (textObjects s)
      \<and> set (selectedDrawingCanvasIds s) \<subseteq> can_id ` set (drawingCanvases s))"

text \<open>
  The sequences in which no id is given out twice: no add passes an \<open>id\<close>
  option (no caller of \<open>addImageToCanvas\<close> does), every add happens at a clock
  value whose id is not in use, and every delete handler is called with ids of
  live objects of its own kind (the callers pass the matching selection list).
  The handlers themselves do not check any of this.
\<close>

fun op_ok :: "edit_op \<Rightarrow> editor_state \<Rightarrow> bool" where
  "op_ok (AddImage now imgSrc cls opts) s =
     (opt_id opts = None \<and> ''img_'' @ string_of_nat now \<notin> set (layerOrder s))"
| "op_ok (AddText now px py) s = (''txt_'' @ string_of_nat now \<notin> set (layerOrder s))"
| "op_ok (AddCanvas now) s = (''canvas_'' @ string_of_nat now \<notin> set (layerOrder s))"
| "op_ok (AddVideo now vsrc ar source) s = (''vid_'' @ string_of_nat now \<notin> set (layerOrder s))"
| "op_ok (DeleteImages ids) s = (set ids \<subseteq> img_id ` set (images s))"
| "op_ok (DeleteTexts ids) s = (set ids \<subseteq> txt_id ` set (textObjects s))"
| "op_ok (DeleteCanvases ids) s = (set ids \<subseteq> can_id ` set (drawingCanvases s))"

fun ops_ok :: "browser \<Rightarrow> edit_op list \<Rightarrow> editor_state \<Rightarrow> bool" where
  "ops_ok br [] s = True"
| "ops_ok br (op # ops) s = (op_ok op s \<and> ops_ok br ops (apply_op br op s))"

section \<open>Invariants of the document\<close>

text \<open>
  The state update \<open>addImageToCanvas\<close> makes when the image decodes: the image
  is appended, its id goes to the end of the layer order and becomes the only
  selection, and the tool is \<open>select\<close>.
\<close>

definition appended_image :: "image_object \<Rightarrow> editor_state \<Rightarrow> editor_state" where
  "appended_image img s =
     s\<lparr>images := images s @ [img], layerOrder := layerOrder s @ [img_id img],
       selectedImageIds := [img_id img], selectedTextIds := [],
       selectedDrawingCanvasIds := [], activeTool := Select\<rparr>"

text \<open>
  The shape of the ids the handlers generate: \<open>img_<time>\<close> and \<open>vid_<time>\<close>
  for images, \<open>txt_<time>\<close> for texts, \<open>canvas_<time>\<close> for drawing canvases.
\<close>

definition is_image_id :: "string \<Rightarrow> bool" where
  "is_image_id i = (take 4 i = ''img_'' \<or> take 4 i = ''vid_'')"

definition is_text_id :: "string \<Rightarrow> bool" where
  "is_text_id i = (take 4 i = ''txt_'')"

definition is_canvas_id :: "string \<Rightarrow> bool" where
  "is_canvas_id i = (take 7 i = ''canvas_'')"

text \<open>
  The layer-order invariant of the data model: no id occurs twice in the layer
  order, and every live object's id occurs in it and has the shape of its kind.
\<close>

definition doc_wf :: "editor_state \<Rightarrow> bool" where
  "doc_wf s =
     (distinct (layerOrder s)
      \<and> img_id ` set (images s) \<subseteq> set (layerOrder s) \<inter> Collect is_image_id
      \<and> txt_id ` set (textObjects s) \<subseteq> set (layerOrder s) \<inter> Collect is_text_id
      \<and> can_id ` set (drawingCanvases s) \<subseteq> set (layerOrder s) \<inter> Collect is_canvas_id)"

text \<open>
  What deleting the object with id \<open>i\<close> achieves from state \<open>s\<close> to state
  \<open>s'\<close>: the layer order held \<open>i\<close> exactly once and holds it no more, no
  selection list holds \<open>i\<close>, and no live object has the id \<open>i\<close>.
\<close>

definition removed_once :: "string \<Rightarrow> editor_state \<Rightarrow> editor_state \<Rightarrow> bool" where
  "removed_once i s s' =
     (count_list (layerOrder s) i = 1 \<and> count_list (layerOrder s') i = 0
      \<and> i \<notin> set (selectedImageIds s') \<and> i \<notin> set (selectedTextIds s')
      \<and> i \<notin> set (selectedDrawingCanvasIds s')
      \<and> i \<notin> img_id ` set (images s') \<and> i \<notin> txt_id ` set (textObjects s')
      \<and> i \<notin> can_id ` set (drawingCanvases s'))"

text \<open>
  A concrete browser and a concrete sequence of operations. Every string that
  is lower-cased below is ASCII, so \<open>unicodeLower\<close> is never consulted.
\<close>

definition demo_browser :: browser where
  "demo_browser = \<lparr>decodeImage = (\<lambda>u. Some (900, 1600)), clientWidth = 1200, clientHeight = 800,
                    unicodeLower = (\<lambda>t. t)\<rparr>"

definition demo_ops :: "edit_op list" where
  "demo_ops = [AddImage 41 ''data:image/png;base64,AAAA'' Original no_options,
               AddText 42 10 20, AddCanvas 43]"

text \<open>
  Two image files dropped onto the canvas together: \<open>handleDrop\<close> (Canvas
  component, lines 280-292) uploads every dropped file, and the two \<open>onload\<close>
  callbacks of \<open>addImageToCanvas\<close> run within the same millisecond.
\<close>

definition colliding_adds :: "edit_op list" where
  "colliding_adds = [AddImage 41 ''data:image/png;base64,AAAA'' Original no_options,
                     AddImage 41 ''data:image/png;base64,BBBB'' Original no_options]"

section \<open>Selection order and reference packing\<close>

text \<open>
  An object of any of the three kinds. The lists \<open>editableItems\<close> (src/App.tsx,
  lines 623-629) and \<open>allSelected\<close> (Canvas component, lines 94-101) hold
  objects of mixed kinds; \<open>editableItems\<close> holds images and drawing canvases
  only, a drawing canvas giving its \<open>drawingSrc\<close> as \<open>src\<close>.
\<close>

datatype canvas_object = ImageObj image_object | TextObj text_object | CanvasObj drawing_canvas_object


fun obj_x :: "canvas_object \<Rightarrow> real" where
  "obj_x (ImageObj img) = img_x img"
| "obj_x (TextObj t) = txt_x t"
| "obj_x (CanvasObj c) = can_x c"

text \<open>
  \<open>editableItems\<close>: the selected images, then the selected drawing canvases,
  sorted with the comparator \<open>a.x - b.x\<close>. \<open>Array.prototype.sort\<close> is stable, as
  is \<^const>\<open>sort_key\<close>.
\<close>

definition editableItems :: "editor_state \<Rightarrow> canvas_object list" where
  "editableItems s =
     (let selectedImages = filter (\<lambda>img. img_id img \<in> set (selectedImageIds s)) (images s);
          selectedCanvases = filter (\<lambda>c. can_id c \<in> set (selectedDrawingCanvasIds s)) (drawingCanvases s)
      in sort_key obj_x (map ImageObj selectedImages @ map CanvasObj selectedCanvases))"

fun obj_src :: "canvas_object \<Rightarrow> string option" where
  "obj_src (ImageObj img) = Some (src img)"
| "obj_src (TextObj t) = None"
| "obj_src (CanvasObj c) = drawingSrc c"

text \<open>
  The items that give a reference payload (lines 661-668): those whose \<open>src\<close>
  is a non-empty string, in the order of \<open>editableItems\<close>.
\<close>

definition referenceItems :: "editor_state \<Rightarrow> canvas_object list" where
  "referenceItems s = filter (\<lambda>item. truthy (obj_src item)) (editableItems s)"

text \<open>An image at a given x-coordinate, and a state with three selected images.\<close>

definition image_at :: "string \<Rightarrow> real \<Rightarrow> image_object" where
  "image_at i px =
     \<lparr>img_id = i, src = ''data:image/png;base64,AAAA'', img_x = px, img_y = 0,
      img_width = 900, img_height = 1600, naturalWidth = 900, naturalHeight = 1600,
      classification = Original, name = None, prompt = None, targetAspectRatio = None,
      modelSheetSrc = None, poses = None, videoSrc = None, maskSrc = None,
      poseIndex = None, poseSrc = None\<rparr>"

definition three_selected :: editor_state where
  "three_selected =
     (initial_state [])\<lparr>images := [image_at ''img_1'' 50, image_at ''img_2'' 10, image_at ''img_3'' 30],
       layerOrder := [''img_1'', ''img_2'', ''img_3''],
       selectedImageIds := [''img_1'', ''img_2'', ''img_3'']\<rparr>"








section \<open>Strings\<close>

text \<open>
  \<open>String.prototype.includes\<close> and \<open>String.prototype.toLowerCase\<close>. A string is
  the list of the bytes of its UTF-8 encoding, in which an ASCII search string
  occurs exactly when it occurs in the string; every search string below is
  ASCII. Lower-casing a string of ASCII characters folds the letters A to Z; a
  string with a character outside ASCII is lower-cased by the engine's Unicode
  tables, \<open>unicodeLower\<close>.
\<close>

fun startsWith :: "string \<Rightarrow> string \<Rightarrow> bool" where
  "startsWith s [] = True"
| "startsWith [] (n # ns) = False"
| "startsWith (c # cs) (n # ns) = (c = n \<and> startsWith cs ns)"

fun str_includes :: "string \<Rightarrow> string \<Rightarrow> bool" where
  "str_includes [] needle = (needle = [])"
| "str_includes (c # cs) needle = (startsWith (c # cs) needle \<or> str_includes cs needle)"

definition lower_char :: "char \<Rightarrow> char" where
  "lower_char c =
     (case map_of (zip ''ABCDEFGHIJKLMNOPQRSTUVWXYZ'' ''abcdefghijklmnopqrstuvwxyz'') c of
        Some l \<Rightarrow> l
      | None \<Rightarrow> c)"

definition is_ascii :: "char \<Rightarrow> bool" where
  "is_ascii c = (\<not> digit7 c)"

definition toLowerCase :: "browser \<Rightarrow> string \<Rightarrow> string" where
  "toLowerCase br s = (if list_all is_ascii s then map lower_char s else unicodeLower br s)"

section \<open>Failures of the generation service\<close>

text \<open>
  What the \<open>catch\<close> block of \<open>handleGenerateImage\<close> (src/App.tsx, lines 785-852)
  reads from the value it caught: \<open>error.message\<close>, the object \<open>error.error\<close>,
  the object found by parsing the JSON text embedded in \<open>error.message\<close>, or
  in \<open>JSON.stringify(error)\<close> when there is no message (its \<open>error\<close> member
  when it has one), and \<open>JSON.stringify(error)\<close>. Of an error object the block
  reads \<open>code\<close>, \<open>status\<close> and \<open>message\<close>.
\<close>

record api_error =
  err_code :: "int option"
  err_status :: "string option"
  err_message :: "string option"

record thrown =
  thrown_message :: "string option"
  thrown_error :: "api_error option"
  thrown_embedded :: "api_error option"
  thrown_json :: string

definition parsedError :: "thrown \<Rightarrow> api_error option" where
  "parsedError e = (case thrown_error e of Some direct \<Rightarrow> Some direct | None \<Rightarrow> thrown_embedded e)"

definition cleanMessage :: "thrown \<Rightarrow> string" where
  "cleanMessage e =
     (case parsedError e of
        Some pe \<Rightarrow> if truthy (err_message pe) then the (err_message pe)
                   else if truthy (thrown_message e) then the (thrown_message e) else ''Unknown error''
      | None \<Rightarrow> if truthy (thrown_message e) then the (thrown_message e) else ''Unknown error'')"

definition msgLower :: "browser \<Rightarrow> thrown \<Rightarrow> string" where
  "msgLower br e = toLowerCase br (cleanMessage e)"

definition rawString :: "browser \<Rightarrow> thrown \<Rightarrow> string" where
  "rawString br e = toLowerCase br (thrown_json e)"

definition isSafetyBlock :: "browser \<Rightarrow> thrown \<Rightarrow> bool" where
  "isSafetyBlock br e =
     (str_includes (msgLower br e) ''safety_block'' \<or> str_includes (msgLower br e) ''blocked''
      \<or> str_includes (msgLower br e) ''prohibited'' \<or> str_includes (msgLower br e) ''recitation'')"

definition isClientError :: "browser \<Rightarrow> thrown \<Rightarrow> bool" where
  "isClientError br e =
     (str_includes (msgLower br e) ''400'' \<or> str_includes (msgLower br e) ''invalid_argument''
      \<or> str_includes (msgLower br e) ''payload'' \<or> str_includes (msgLower br e) ''too large'')"

definition is503 :: "browser \<Rightarrow> thrown \<Rightarrow> bool" where
  "is503 br e =
     ((case parsedError e of
         Some pe \<Rightarrow> err_code pe = Some 503 \<or> err_status pe = Some ''UNAVAILABLE''
       | None \<Rightarrow> False)
      \<or> str_includes (msgLower br e) ''503'' \<or> str_includes (msgLower br e) ''overloaded''
      \<or> str_includes (msgLower br e) ''unavailable''
      \<or> str_includes (rawString br e) (CHR 0x22 # ''code'' @ CHR 0x22 # '':503''))"

definition is429 :: "browser \<Rightarrow> thrown \<Rightarrow> bool" where
  "is429 br e =
     ((case parsedError e of
         Some pe \<Rightarrow> err_code pe = Some 429 \<or> err_status pe = Some ''RESOURCE_EXHAUSTED''
       | None \<Rightarrow> False)
      \<or> str_includes (msgLower br e) ''429'' \<or> str_includes (msgLower br e) ''quota''
      \<or> str_includes (msgLower br e) ''resource_exhausted'')"

definition maxRetries :: nat where
  "maxRetries = 3"

text \<open>
  The delay before the next attempt after an overload error,
  \<open>Math.min(1000 * Math.pow(2, attempt - 1), 5000)\<close>, for attempts counted
  from 1.
\<close>

definition overloadDelay :: "nat \<Rightarrow> nat" where
  "overloadDelay attempt = min (1000 * 2 ^ (attempt - 1)) 5000"

text \<open>
  What the \<open>catch\<close> block decides (lines 821-885): stop with a notice, sleep
  and go on to the next attempt, or, at the last attempt, set the final notice.
  The seconds shown in the overload notice, \<open>Math.round(delay / 1000)\<close>, are
  exact because the delay is a multiple of 1000.
\<close>

datatype failure_action = Stop notice | RetryAfter nat retry_notice | GiveUp notice

definition onFailure :: "browser \<Rightarrow> thrown \<Rightarrow> nat \<Rightarrow> failure_action" where
  "onFailure br e attempt =
     (if isSafetyBlock br e then Stop SafetyBlocked
      else if isClientError br e then Stop PayloadTooLarge
      else if attempt < maxRetries then
        (if is503 br e then RetryAfter (overloadDelay attempt)
                           (OverloadRetry (overloadDelay attempt div 1000) attempt)
         else if is429 br e then RetryAfter 5000 (QuotaRetry attempt)
         else RetryAfter 2000 (ErrorRetry attempt))
      else
        (if is503 br e then GiveUp Overloaded503
         else if is429 br e then GiveUp QuotaExceeded429
         else GiveUp GenerationFailed))"

section \<open>The generation service and the attempt\<close>

text \<open>
  The calls \<open>handleGenerateImage\<close> makes outside the application state. The
  services of src/services/geminiService.ts answer with a base64 image or
  throw; the answer may differ from one attempt to the next, so each takes the
  attempt number. \<open>createPaddedImage\<close> resolves with a data URL or rejects;
  \<open>optimizeImageForApi\<close> always resolves. \<open>resolvePrompt\<close> is the substitution
  of a prompt template (lines 583-607): from the prompt and the active model to
  the final prompt and the negative prompt.
\<close>

record payload =
  mimeType :: string
  base64Data :: string

record edit_call =
  call_prompt :: string
  call_references :: "payload list"
  call_model :: string
  call_mask :: "payload option"
  call_aspectRatio :: aspect_ratio

record services =
  editImage :: "nat \<Rightarrow> edit_call \<Rightarrow> thrown + string"
  generateImage :: "nat \<Rightarrow> string \<Rightarrow> string \<Rightarrow> aspect_ratio \<Rightarrow> thrown + string"
  parsePromptForEntities ::
    "nat \<Rightarrow> string \<Rightarrow> string list \<Rightarrow> string list \<Rightarrow> thrown + (string option \<times> string option)"
  createPaddedImage :: "string \<Rightarrow> aspect_ratio \<Rightarrow> thrown + string"
  optimizeImageForApi :: "string \<Rightarrow> payload"
  resolvePrompt :: "string \<Rightarrow> string \<Rightarrow> string \<times> string option"

definition outpaintingPrompt :: string where
  "outpaintingPrompt =
      ''If the height size of the attached image is long, '' @
      [CHR 0xEC, CHR 0x9D, CHR 0xB4, CHR 0xEB, CHR 0xAF, CHR 0xB8, CHR 0xEC, CHR 0xA7, CHR 0x80,
       CHR 0x20, CHR 0xEC, CHR 0x86, CHR 0x8D, CHR 0x20, CHR 0xEC, CHR 0x83, CHR 0x81, CHR 0xEB,
       CHR 0x8B, CHR 0xA8, CHR 0xEA, CHR 0xB3, CHR 0xBC, CHR 0x20, CHR 0xED, CHR 0x95, CHR 0x98,
       CHR 0xEB, CHR 0x8B, CHR 0xA8, CHR 0xEC, CHR 0x9D, CHR 0x98, CHR 0x20, CHR 0xEC, CHR 0xB4,
       CHR 0x88, CHR 0xEB, CHR 0xA1, CHR 0x9D, CHR 0xEC, CHR 0x83, CHR 0x89, CHR 0x20, CHR 0xEB,
       CHR 0xB2, CHR 0x94, CHR 0xEC, CHR 0x9C, CHR 0x84, CHR 0xEB, CHR 0xA5, CHR 0xBC, CHR 0x20,
       CHR 0x20, CHR 0xEB, CHR 0xAA, CHR 0xA8, CHR 0xEB, CHR 0x91, CHR 0x90, CHR 0x20, CHR 0xEC,
       CHR 0xA0, CHR 0x9C, CHR 0xEA, CHR 0xB1, CHR 0xB0, CHR 0xED, CHR 0x95, CHR 0x98, CHR 0xEA,
       CHR 0xB3, CHR 0xA0, CHR 0x20, CHR 0xEA, CHR 0xB8, CHR 0xB0, CHR 0xEC, CHR 0xA1, CHR 0xB4,
       CHR 0xEC, CHR 0x9D, CHR 0x98, CHR 0x20, CHR 0xEC, CHR 0x82, CHR 0xAC, CHR 0xEC, CHR 0xA7,
       CHR 0x84, CHR 0xEC, CHR 0x9D, CHR 0x84, CHR 0x20, CHR 0xEC, CHR 0x9E, CHR 0x90, CHR 0xEC,
       CHR 0x97, CHR 0xB0, CHR 0xEC, CHR 0x8A, CHR 0xA4, CHR 0xEB, CHR 0x9F, CHR 0xBD, CHR 0xEA,
       CHR 0xB2, CHR 0x8C, CHR 0x20, CHR 0xEC, CHR 0x97, CHR 0xB0, CHR 0xEC, CHR 0x9E, CHR 0xA5,
       CHR 0xED, CHR 0x95, CHR 0xB4, CHR 0xEC, CHR 0xA4, CHR 0x98] @
      ''. If the width size of the attached image is long, '' @
      [CHR 0xEC, CHR 0x9D, CHR 0xB4, CHR 0xEB, CHR 0xAF, CHR 0xB8, CHR 0xEC, CHR 0xA7, CHR 0x80,
       CHR 0x20, CHR 0xEC, CHR 0x86, CHR 0x8D, CHR 0x20, CHR 0xEC, CHR 0xA2, CHR 0x8C, CHR 0xEC,
       CHR 0xB8, CHR 0xA1, CHR 0xEA, CHR 0xB3, CHR 0xBC, CHR 0x20, CHR 0xEC, CHR 0x9A, CHR 0xB0,
       CHR 0xEC, CHR 0xB8, CHR 0xA1, CHR 0xEC, CHR 0x9D, CHR 0x98, CHR 0x20, CHR 0xEC, CHR 0xB4,
       CHR 0x88, CHR 0xEB, CHR 0xA1, CHR 0x9D, CHR 0xEC, CHR 0x83, CHR 0x89, CHR 0x20, CHR 0xEB,
       CHR 0xB2, CHR 0x94, CHR 0xEC, CHR 0x9C, CHR 0x84, CHR 0xEB, CHR 0xA5, CHR 0xBC, CHR 0x20,
       CHR 0x20, CHR 0xEB, CHR 0xAA, CHR 0xA8, CHR 0xEB, CHR 0x91, CHR 0x90, CHR 0x20, CHR 0xEC,
       CHR 0xA0, CHR 0x9C, CHR 0xEA, CHR 0xB1, CHR 0xB0, CHR 0xED, CHR 0x95, CHR 0x98, CHR 0xEA,
       CHR 0xB3, CHR 0xA0, CHR 0x20, CHR 0xEA, CHR 0xB8, CHR 0xB0, CHR 0xEC, CHR 0xA1, CHR 0xB4,
       CHR 0xEC, CHR 0x9D, CHR 0x98, CHR 0x20, CHR 0xEC, CHR 0x82, CHR 0xAC, CHR 0xEC, CHR 0xA7,
       CHR 0x84, CHR 0xEC, CHR 0x9D, CHR 0x84, CHR 0x20, CHR 0xEC, CHR 0x9E, CHR 0x90, CHR 0xEC,
       CHR 0x97, CHR 0xB0, CHR 0xEC, CHR 0x8A, CHR 0xA4, CHR 0xEB, CHR 0x9F, CHR 0xBD, CHR 0xEA,
       CHR 0xB2, CHR 0x8C, CHR 0x20, CHR 0xEC, CHR 0x97, CHR 0xB0, CHR 0xEC, CHR 0x9E, CHR 0xA5,
       CHR 0xED, CHR 0x95, CHR 0xB4, CHR 0xEC, CHR 0xA4, CHR 0x98]"

definition pngDataUrl :: "string \<Rightarrow> string" where
  "pngDataUrl b64 = ''data:image/png;base64,'' @ b64"

fun obj_width :: "canvas_object \<Rightarrow> real" where
  "obj_width (ImageObj img) = img_width img"
| "obj_width (TextObj t) = txt_width t"
| "obj_width (CanvasObj c) = can_width c"

fun obj_height :: "canvas_object \<Rightarrow> real" where
  "obj_height (ImageObj img) = img_height img"
| "obj_height (TextObj t) = txt_height t"
| "obj_height (CanvasObj c) = can_height c"

text \<open>\<open>'maskSrc' in item && item.maskSrc\<close>: only an image carries a mask.\<close>

fun obj_maskSrc :: "canvas_object \<Rightarrow> string option" where
  "obj_maskSrc (ImageObj img) = keep_truthy (maskSrc img)"
| "obj_maskSrc (TextObj t) = None"
| "obj_maskSrc (CanvasObj c) = None"

text \<open>
  \<open>Math.abs(itemRatio - targetRatio) < 0.01\<close> (lines 650-655). With a height of
  zero the quotient is infinite or not a number and the comparison is false.
\<close>

definition matchesAspectRatio :: "canvas_object \<Rightarrow> aspect_ratio \<Rightarrow> bool" where
  "matchesAspectRatio item ar =
     (obj_height item \<noteq> 0 \<and> \<bar>obj_width item / obj_height item - target_ratio ar\<bar> < 0.01)"

definition isMatchingAspectRatio :: "editor_state \<Rightarrow> bool" where
  "isMatchingAspectRatio s =
     (case editableItems s of
        [singleItem] \<Rightarrow> matchesAspectRatio singleItem (aspectRatio s)
      | _ \<Rightarrow> False)"

definition currentModel :: "editor_state \<Rightarrow> string" where
  "currentModel s =
     (if editableItems s = [] then ''imagen-4.0-generate-001''
      else if str_includes (activeModel s) ''imagen'' then ''gemini-3-pro-image-preview''
      else activeModel s)"

definition effectivePrompt :: "string \<Rightarrow> string option \<Rightarrow> string" where
  "effectivePrompt finalPrompt negativePrompt =
     (if truthy negativePrompt
      then finalPrompt @ [CHR 0x0A, CHR 0x0A] @ ''Negative Prompt: '' @ the negativePrompt
      else finalPrompt)"

text \<open>The single-step edit (lines 690-694) and the two-step edit, pad and outpaint (lines 696-709).\<close>

definition singleStep ::
  "services \<Rightarrow> nat \<Rightarrow> string \<Rightarrow> payload list \<Rightarrow> string \<Rightarrow> payload option \<Rightarrow> aspect_ratio
     \<Rightarrow> thrown + string" where
  "singleStep sv attempt p refs model maskP ar =
     (case editImage sv attempt
             \<lparr>call_prompt = p, call_references = refs, call_model = model,
              call_mask = maskP, call_aspectRatio = ar\<rparr> of
        Inl e \<Rightarrow> Inl e
      | Inr finalImageBase64 \<Rightarrow> Inr (pngDataUrl finalImageBase64))"

definition twoStep ::
  "services \<Rightarrow> nat \<Rightarrow> string \<Rightarrow> payload list \<Rightarrow> string \<Rightarrow> aspect_ratio \<Rightarrow> thrown + string" where
  "twoStep sv attempt p refs model ar =
     (case editImage sv attempt
             \<lparr>call_prompt = p, call_references = refs, call_model = model,
              call_mask = None, call_aspectRatio = ar\<rparr> of
        Inl e \<Rightarrow> Inl e
      | Inr initialImageBase64 \<Rightarrow>
          (case createPaddedImage sv initialImageBase64 ar of
             Inl e \<Rightarrow> Inl e
           | Inr paddedImageSrc \<Rightarrow>
               (case editImage sv attempt
                       \<lparr>call_prompt = outpaintingPrompt,
                        call_references = [optimizeImageForApi sv paddedImageSrc],
                        call_model = model, call_mask = None, call_aspectRatio = ar\<rparr> of
                  Inl e \<Rightarrow> Inl e
                | Inr finalImageBase64 \<Rightarrow> Inr (pngDataUrl finalImageBase64))))"

text \<open>\<open>throw new Error("Selected items have no data.")\<close>.\<close>

definition noDataError :: thrown where
  "noDataError = \<lparr>thrown_message = Some ''Selected items have no data.'', thrown_error = None,
                   thrown_embedded = None, thrown_json = ''{}''\<rparr>"

definition validReferenceData :: "services \<Rightarrow> editor_state \<Rightarrow> payload list" where
  "validReferenceData sv s =
     map (\<lambda>item. optimizeImageForApi sv (the (obj_src item))) (referenceItems s)"

definition maskPart :: "services \<Rightarrow> editor_state \<Rightarrow> payload option" where
  "maskPart sv s =
     (if length (editableItems s) = 1 \<and> isMatchingAspectRatio s
      then map_option (optimizeImageForApi sv) (obj_maskSrc (hd (editableItems s)))
      else None)"

text \<open>The branch for a selection with editable items (lines 644-710), up to the final image.\<close>

definition editSelected :: "services \<Rightarrow> nat \<Rightarrow> string \<Rightarrow> editor_state \<Rightarrow> thrown + string" where
  "editSelected sv attempt p s =
     (if validReferenceData sv s = [] then Inl noDataError
      else if length (editableItems s) = 1 \<and> isMatchingAspectRatio s
      then singleStep sv attempt p (validReferenceData sv s) (currentModel s) (maskPart sv s) (aspectRatio s)
      else twoStep sv attempt p (validReferenceData sv s) (currentModel s) (aspectRatio s))"

text \<open>
  The branch without editable items (lines 722-777): the pair of a named
  character and a named background when the prompt names both, else
  text-to-image.
\<close>

datatype generation_path = EditPath | EntityPath | TextToImagePath

definition named :: "image_classification \<Rightarrow> editor_state \<Rightarrow> image_object list" where
  "named cls s = filter (\<lambda>img. classification img = cls \<and> truthy (name img)) (images s)"

definition generateUnselected ::
  "services \<Rightarrow> nat \<Rightarrow> string \<Rightarrow> string option \<Rightarrow> editor_state
     \<Rightarrow> thrown + (generation_path \<times> string)" where
  "generateUnselected sv attempt finalPrompt negativePrompt s =
     (let characterImages = named Character s;
          backgroundImages = named Background s;
          fromScratch =
            (case generateImage sv attempt finalPrompt (currentModel s) (aspectRatio s) of
               Inl e \<Rightarrow> Inl e
             | Inr base64Image \<Rightarrow> Inr (TextToImagePath, pngDataUrl base64Image))
      in if characterImages \<noteq> [] \<and> backgroundImages \<noteq> [] then
           (case parsePromptForEntities sv attempt finalPrompt
                   (map (\<lambda>img. the (name img)) characterImages)
                   (map (\<lambda>img. the (name img)) backgroundImages) of
              Inl e \<Rightarrow> Inl e
            | Inr (characterName, backgroundName) \<Rightarrow>
                if truthy characterName \<and> truthy backgroundName then
                  (case (find (\<lambda>img. name img = characterName) characterImages,
                         find (\<lambda>img. name img = backgroundName) backgroundImages) of
                     (Some characterImage, Some backgroundImage) \<Rightarrow>
                       (case twoStep sv attempt (effectivePrompt finalPrompt negativePrompt)
                               [optimizeImageForApi sv (src characterImage),
                                optimizeImageForApi sv (src backgroundImage)]
                               ''gemini-3-pro-image-preview'' (aspectRatio s) of
                          Inl e \<Rightarrow> Inl e
                        | Inr finalImgSrc \<Rightarrow> Inr (EntityPath, finalImgSrc))
                   | _ \<Rightarrow> fromScratch)
                else fromScratch)
         else fromScratch)"

text \<open>The body of the \<open>try\<close> block (lines 620-783), up to the final image.\<close>

definition attemptBody ::
  "services \<Rightarrow> nat \<Rightarrow> string \<Rightarrow> string option \<Rightarrow> editor_state
     \<Rightarrow> thrown + (generation_path \<times> string)" where
  "attemptBody sv attempt finalPrompt negativePrompt s =
     (if editableItems s \<noteq> [] then
        (case editSelected sv attempt (effectivePrompt finalPrompt negativePrompt) s of
           Inl e \<Rightarrow> Inl e
         | Inr finalImgSrc \<Rightarrow> Inr (EditPath, finalImgSrc))
      else generateUnselected sv attempt finalPrompt negativePrompt s)"

section \<open>The retry loop\<close>

text \<open>
  The state updates after the final image is known. On the edit path the mask
  of every selected image is cleared and the image and drawing-canvas
  selections are emptied (lines 712-720); on every path the loading flag and
  message are reset and the tool becomes \<open>select\<close> (lines 763-765, 779-782).
  The new image enters the document when it has been decoded, after these
  updates.
\<close>

definition clearSelectedMasks :: "string list \<Rightarrow> image_object list \<Rightarrow> image_object list" where
  "clearSelectedMasks ids imgs =
     map (\<lambda>img. if img_id img \<in> set ids then img\<lparr>maskSrc := None\<rparr> else img) imgs"

definition onSuccess ::
  "browser \<Rightarrow> nat \<Rightarrow> string \<Rightarrow> editor_state \<Rightarrow> generation_path \<times> string \<Rightarrow> editor_state
     \<Rightarrow> editor_state" where
  "onSuccess br now promptText s0 g st =
     (let st1 = (if fst g = EditPath
                 then st\<lparr>images := clearSelectedMasks (selectedImageIds s0) (images st),
                        selectedImageIds := [], selectedDrawingCanvasIds := []\<rparr>
                 else st);
          st2 = st1\<lparr>isLoading := False, loadingMessage := None, activeTool := Select\<rparr>
      in addImageToCanvas br now (snd g) Result
           (no_options\<lparr>opt_prompt := Some promptText,
                        opt_targetAspectRatio := Some (aspectRatio s0)\<rparr>) st2)"

text \<open>
  How a run of \<open>handleGenerateImage\<close> ended: it did not start (empty prompt or
  a generation in flight), it asked for an API key, it produced an image on one
  of the paths, or it failed with a notice.
\<close>

datatype generation_outcome = NotStarted | KeyRequested | Generated generation_path | Failed notice

record generation_run =
  outcome :: generation_outcome
  final :: editor_state
  slept :: "nat list"

text \<open>
  The loop \<open>for (attempt = 1; attempt <= maxRetries; attempt++)\<close> (lines 619-887)
  over the attempts still to make. \<open>s0\<close> is the state of the render whose
  values the handler closed over; \<open>st\<close> is the state the setters act on.
  \<open>slept\<close> lists the delays of the \<open>setTimeout\<close> waits, in order. After the
  last attempt has set its notice the loop ends.
\<close>

fun attemptsLoop ::
  "services \<Rightarrow> browser \<Rightarrow> nat \<Rightarrow> string \<Rightarrow> string \<times> string option \<Rightarrow> editor_state
     \<Rightarrow> nat list \<Rightarrow> generation_outcome \<Rightarrow> editor_state \<Rightarrow> generation_run" where
  "attemptsLoop sv br now promptText fp s0 [] ended st = \<lparr>outcome = ended, final = st, slept = []\<rparr>"
| "attemptsLoop sv br now promptText fp s0 (attempt # rest) ended st =
     (case attemptBody sv attempt (fst fp) (snd fp) s0 of
        Inr g \<Rightarrow> \<lparr>outcome = Generated (fst g), final = onSuccess br now promptText s0 g st, slept = []\<rparr>
      | Inl e \<Rightarrow>
          (case onFailure br e attempt of
             Stop n \<Rightarrow>
               \<lparr>outcome = Failed n,
                final = st\<lparr>errorMessage := Some n, isLoading := False, loadingMessage := None\<rparr>,
                slept = []\<rparr>
           | RetryAfter delay message \<Rightarrow>
               (let r = attemptsLoop sv br now promptText fp s0 rest ended
                          (st\<lparr>loadingMessage := Some message\<rparr>)
                in r\<lparr>slept := delay # slept r\<rparr>)
           | GiveUp n \<Rightarrow>
               attemptsLoop sv br now promptText fp s0 rest (Failed n)
                 (st\<lparr>errorMessage := Some n, isLoading := False, loadingMessage := None\<rparr>)))"

text \<open>\<open>handleGenerateImage\<close> (lines 574-888).\<close>

definition handleGenerateImage ::
  "services \<Rightarrow> browser \<Rightarrow> nat \<Rightarrow> string \<Rightarrow> editor_state \<Rightarrow> generation_run" where
  "handleGenerateImage sv br now promptText s =
     (if promptText = [] \<or> isLoading s then \<lparr>outcome = NotStarted, final = s, slept = []\<rparr>
      else if apiKey s = [] then
        \<lparr>outcome = KeyRequested, final = s\<lparr>isApiKeyModalOpen := True\<rparr>, slept = []\<rparr>
      else
        attemptsLoop sv br now promptText (resolvePrompt sv promptText (activeModel s)) s
          [1..<maxRetries + 1] NotStarted
          (s\<lparr>isLoading := True, loadingMessage := None, errorMessage := None\<rparr>))"

text \<open>\<open>onBackgroundClick\<close> (lines 1535-1556).\<close>

definition onBackgroundClick :: "editor_state \<Rightarrow> editor_state" where
  "onBackgroundClick s =
     (let s1 = s\<lparr>activeImageUI := None\<rparr>;
          s2 = (if selectedImageIds s \<noteq> []
                then s1\<lparr>images := map (\<lambda>img. if img_id img \<in> set (selectedImageIds s) \<and> truthy (maskSrc img)
                                             then img\<lparr>maskSrc := None\<rparr> else img) (images s1)\<rparr>
                else s1);
          s3 = s2\<lparr>selectedImageIds := [], selectedTextIds := [], selectedDrawingCanvasIds := []\<rparr>
      in if activeTool s \<in> {Text, Pen, Eraser} then s3\<lparr>activeTool := Pan\<rparr> else s3)"

section \<open>The document and the status fields\<close>

text \<open>
  The in-memory document: the three object collections, the layer order, the
  aspect ratio, the transform and the project name. \<open>without_status\<close> resets
  the three fields that report on a generation in flight, so that two states
  that differ in these fields only have the same image under it.
\<close>

definition without_status :: "editor_state \<Rightarrow> editor_state" where
  "without_status s = s\<lparr>errorMessage := None, isLoading := False, loadingMessage := None\<rparr>"

definition document ::
  "editor_state \<Rightarrow> image_object list \<times> text_object list \<times> drawing_canvas_object list
     \<times> string list \<times> aspect_ratio \<times> canvas_transform \<times> string" where
  "document s = (images s, textObjects s, drawingCanvases s, layerOrder s, aspectRatio s,
                 transform s, projectName s)"

section \<open>Project archive\<close>

text \<open>\<open>String.prototype.split\<close> with a one-character separator.\<close>

fun splitOn :: "char \<Rightarrow> string \<Rightarrow> string list" where
  "splitOn sep [] = [[]]"
| "splitOn sep (c # cs) =
     (if c = sep then [] # splitOn sep cs
      else (case splitOn sep cs of
              [] \<Rightarrow> [[c]]
            | part # parts \<Rightarrow> (c # part) # parts))"

text \<open>
  \<open>parts[0].match(/:(.*?);/)\<close>: the text between the first colon that is
  followed by a semicolon on the same line, and that semicolon. The dot of a
  regular expression does not match a line feed or a carriage return.
\<close>

fun upToSemicolon :: "string \<Rightarrow> string option" where
  "upToSemicolon [] = None"
| "upToSemicolon (c # cs) =
     (if c = CHR '';'' then Some []
      else if c = CHR 0x0A \<or> c = CHR 0x0D then None
      else map_option ((#) c) (upToSemicolon cs))"

fun mimeMatch :: "string \<Rightarrow> string option" where
  "mimeMatch [] = None"
| "mimeMatch (c # cs) =
     (if c = CHR '':'' then (case upToSemicolon cs of Some m \<Rightarrow> Some m | None \<Rightarrow> mimeMatch cs)
      else mimeMatch cs)"

text \<open>
  \<open>parseDataUrl\<close> (src/App.tsx, lines 23-38). The result \<open>{mimeType, data}\<close> is
  given as a \<open>payload\<close>, its \<open>data\<close> in the field \<open>base64Data\<close>.
\<close>

definition parseDataUrl :: "string \<Rightarrow> payload" where
  "parseDataUrl dataUrl =
     (if dataUrl = [] then \<lparr>mimeType = ''image/png'', base64Data = []\<rparr>
      else
        let parts = splitOn CHR '','' dataUrl in
        if length parts < 2 then \<lparr>mimeType = ''image/png'', base64Data = []\<rparr>
        else
          let found = (case mimeMatch (parts ! 0) of Some m \<Rightarrow> m | None \<Rightarrow> ''image/png'');
              mt = (if found = ''application/octet-stream'' \<or> found = ''binary/octet-stream''
                    then ''image/png'' else found)
          in \<lparr>mimeType = mt, base64Data = parts ! 1\<rparr>)"

text \<open>
  An archive: the parsed \<open>project.json\<close> entry, when there is one, and the
  binary entries by path. A binary entry is represented by the base64 text of
  its bytes: \<open>file(name, data, {base64: true})\<close> stores the bytes that \<open>data\<close>
  encodes, and \<open>readAsDataURL\<close> encodes the bytes it reads. The members of
  \<open>project.json\<close> that \<open>loadProjectFromFile\<close> tests before use are optional.
\<close>

record project_data =
  pd_projectName :: "string option"
  pd_images :: "image_object list option"
  pd_textObjects :: "text_object list option"
  pd_drawingCanvases :: "drawing_canvas_object list option"
  pd_layerOrder :: "string list option"
  pd_aspectRatio :: "aspect_ratio option"
  pd_transform :: "canvas_transform option"

record archive =
  project_json :: "project_data option"
  assets :: "string \<rightharpoonup> string"

text \<open>
  A file as \<open>loadProjectFromFile\<close> receives it: its name and the archive
  \<open>JSZip.loadAsync\<close> reads from it, \<open>None\<close> when the file is not an archive.
\<close>

record project_file =
  file_name :: string
  file_zip :: "archive option"

text \<open>
  \<open>addAsset\<close> (lines 1233-1239). The \<open>k\<close>-th call reads the clock and a random
  token, \<open>stamps k\<close>; the writer counts the calls and holds the entries of the
  \<open>assets\<close> folder, keyed by their path in the archive.
\<close>

record writer =
  written :: nat
  folder :: "string \<rightharpoonup> string"

definition extension :: "string \<Rightarrow> string" where
  "extension mt =
     (let parts = splitOn CHR ''/'' mt
      in if 2 \<le> length parts \<and> parts ! 1 \<noteq> [] then parts ! 1 else ''bin'')"

definition addAsset :: "(nat \<Rightarrow> nat \<times> string) \<Rightarrow> string \<Rightarrow> string \<Rightarrow> writer \<Rightarrow> string \<times> writer" where
  "addAsset stamps dataUrl pre w =
     (let parsed = parseDataUrl dataUrl;
          filename = pre @ ''_'' @ string_of_nat (fst (stamps (written w))) @ ''_''
                       @ snd (stamps (written w)) @ ''.'' @ extension (mimeType parsed);
          path = ''assets/'' @ filename
      in (path, \<lparr>written = written w + 1, folder = (folder w)(path \<mapsto> base64Data parsed)\<rparr>))"

text \<open>\<open>if (v) v = addAsset(v, prefix)\<close> on an optional payload field.\<close>

definition addOptional ::
  "(nat \<Rightarrow> nat \<times> string) \<Rightarrow> string \<Rightarrow> string option \<Rightarrow> writer \<Rightarrow> string option \<times> writer" where
  "addOptional stamps pre v w =
     (if truthy v
      then (case addAsset stamps (the v) pre w of (path, w') \<Rightarrow> (Some path, w'))
      else (v, w))"

fun addPoses ::
  "(nat \<Rightarrow> nat \<times> string) \<Rightarrow> string option list \<Rightarrow> writer \<Rightarrow> string option list \<times> writer" where
  "addPoses stamps [] w = ([], w)"
| "addPoses stamps (p # ps) w =
     (case addOptional stamps ''pose'' p w of
        (p', w1) \<Rightarrow> (case addPoses stamps ps w1 of (ps', w2) \<Rightarrow> (p' # ps', w2)))"

definition saveImage :: "(nat \<Rightarrow> nat \<times> string) \<Rightarrow> image_object \<Rightarrow> writer \<Rightarrow> image_object \<times> writer" where
  "saveImage stamps img w =
     (case addAsset stamps (src img) ''img'' w of (newSrc, w1) \<Rightarrow>
      case addOptional stamps ''sheet'' (modelSheetSrc img) w1 of (newSheet, w2) \<Rightarrow>
      case (case poses img of
              None \<Rightarrow> (None, w2)
            | Some ps \<Rightarrow> (case addPoses stamps ps w2 of (ps', w') \<Rightarrow> (Some ps', w'))) of
        (newPoses, w3) \<Rightarrow>
      case addOptional stamps ''vid'' (videoSrc img) w3 of (newVideo, w4) \<Rightarrow>
      case addOptional stamps ''mask'' (maskSrc img) w4 of (newMask, w5) \<Rightarrow>
        (img\<lparr>src := newSrc, modelSheetSrc := newSheet, poses := newPoses, videoSrc := newVideo,
             maskSrc := newMask\<rparr>, w5))"

fun saveImages ::
  "(nat \<Rightarrow> nat \<times> string) \<Rightarrow> image_object list \<Rightarrow> writer \<Rightarrow> image_object list \<times> writer" where
  "saveImages stamps [] w = ([], w)"
| "saveImages stamps (img # imgs) w =
     (case saveImage stamps img w of
        (img', w1) \<Rightarrow> (case saveImages stamps imgs w1 of (imgs', w2) \<Rightarrow> (img' # imgs', w2)))"

definition saveDrawing ::
  "(nat \<Rightarrow> nat \<times> string) \<Rightarrow> drawing_canvas_object \<Rightarrow> writer
     \<Rightarrow> drawing_canvas_object \<times> writer" where
  "saveDrawing stamps c w =
     (case addOptional stamps ''draw'' (drawingSrc c) w of
        (newSrc, w') \<Rightarrow> (c\<lparr>drawingSrc := newSrc\<rparr>, w'))"

fun saveDrawings ::
  "(nat \<Rightarrow> nat \<times> string) \<Rightarrow> drawing_canvas_object list \<Rightarrow> writer
     \<Rightarrow> drawing_canvas_object list \<times> writer" where
  "saveDrawings stamps [] w = ([], w)"
| "saveDrawings stamps (c # cs) w =
     (case saveDrawing stamps c w of
        (c', w1) \<Rightarrow> (case saveDrawings stamps cs w1 of (cs', w2) \<Rightarrow> (c' # cs', w2)))"

text \<open>
  \<open>handleSaveProject\<close> (lines 1226-1290): the file handed to \<open>saveAs\<close>.
  \<open>JSON.stringify\<close> followed by \<open>JSON.parse\<close> gives back the members it was
  given; a member that is \<open>undefined\<close> is left out, which \<open>None\<close> stands for.
\<close>

definition handleSaveProject :: "(nat \<Rightarrow> nat \<times> string) \<Rightarrow> editor_state \<Rightarrow> project_file" where
  "handleSaveProject stamps s =
     (case saveImages stamps (images s) \<lparr>written = 0, folder = Map.empty\<rparr> of
        (processedImages, w1) \<Rightarrow>
      case saveDrawings stamps (drawingCanvases s) w1 of
        (processedDrawings, w2) \<Rightarrow>
          \<lparr>file_name = projectName s @ ''.story'',
           file_zip = Some
             \<lparr>project_json = Some
                \<lparr>pd_projectName = Some (projectName s),
                 pd_images = Some processedImages,
                 pd_textObjects = Some (textObjects s),
                 pd_drawingCanvases = Some processedDrawings,
                 pd_layerOrder = Some (layerOrder s),
                 pd_aspectRatio = Some (aspectRatio s),
                 pd_transform = Some (transform s)\<rparr>,
              assets = folder w2\<rparr>\<rparr>)"

text \<open>
  \<open>loadAsset\<close> (lines 1175-1184): the data URL \<open>readAsDataURL\<close> gives for the
  entry, whose blob has no type, or the empty string when there is no entry.
\<close>

definition loadAsset :: "archive \<Rightarrow> string \<Rightarrow> string" where
  "loadAsset z path =
     (case assets z path of
        None \<Rightarrow> []
      | Some bytes \<Rightarrow> ''data:application/octet-stream;base64,'' @ bytes)"

definition loadOptional :: "archive \<Rightarrow> string option \<Rightarrow> string option" where
  "loadOptional z v = (if truthy v then Some (loadAsset z (the v)) else v)"

definition restoreImage :: "archive \<Rightarrow> image_object \<Rightarrow> image_object" where
  "restoreImage z img =
     img\<lparr>src := loadAsset z (src img),
         modelSheetSrc := loadOptional z (modelSheetSrc img),
         poses := map_option (map (loadOptional z)) (poses img),
         videoSrc := loadOptional z (videoSrc img),
         maskSrc := loadOptional z (maskSrc img)\<rparr>"

definition restoreDrawing :: "archive \<Rightarrow> drawing_canvas_object \<Rightarrow> drawing_canvas_object" where
  "restoreDrawing z c = c\<lparr>drawingSrc := loadOptional z (drawingSrc c)\<rparr>"

text \<open>\<open>file.name.replace(/\.[^/.]+$/, "")\<close>: the name without its last extension.\<close>

definition stripExtension :: "string \<Rightarrow> string" where
  "stripExtension fname =
     (let ext = takeWhile (\<lambda>c. c \<noteq> CHR ''.'') (rev fname)
      in if CHR ''.'' \<in> set fname \<and> ext \<noteq> [] \<and> CHR ''/'' \<notin> set ext
         then take (length fname - length ext - 1) fname
         else fname)"

text \<open>
  \<open>loadProjectFromFile\<close> (lines 1166-1223): the new state and the text of the
  alert, if any. A file that is not an archive, an archive without
  \<open>project.json\<close>, and a \<open>project.json\<close> without \<open>images\<close> or
  \<open>drawingCanvases\<close> throw inside the \<open>try\<close> block before any state is set.
\<close>

definition loadProjectFromFile :: "project_file \<Rightarrow> editor_state \<Rightarrow> editor_state \<times> string option" where
  "loadProjectFromFile file s =
     (case file_zip file of
        None \<Rightarrow> (s, Some ''Failed to load project.'')
      | Some z \<Rightarrow>
          (case project_json z of
             None \<Rightarrow> (s, Some ''Failed to load project.'')
           | Some projectData \<Rightarrow>
               (case (pd_images projectData, pd_drawingCanvases projectData) of
                  (Some imgs, Some cans) \<Rightarrow>
                    (s\<lparr>images := map (restoreImage z) imgs,
                       textObjects := (case pd_textObjects projectData of Some ts \<Rightarrow> ts | None \<Rightarrow> []),
                       drawingCanvases := map (restoreDrawing z) cans,
                       layerOrder := (case pd_layerOrder projectData of Some l \<Rightarrow> l | None \<Rightarrow> layerOrder s),
                       aspectRatio := (case pd_aspectRatio projectData of Some a \<Rightarrow> a | None \<Rightarrow> aspectRatio s),
                       transform := (case pd_transform projectData of Some t \<Rightarrow> t | None \<Rightarrow> transform s),
                       projectName := (if truthy (pd_projectName projectData)
                                       then the (pd_projectName projectData)
                                       else stripExtension (file_name file)),
                       selectedImageIds := [], selectedTextIds := [], selectedDrawingCanvasIds := []\<rparr>,
                     None)
                | _ \<Rightarrow> (s, Some ''Failed to load project.''))))"

section \<open>Concrete failures, services and documents\<close>

text \<open>
  Concrete failures. The service rethrows what the API client threw: an
  \<open>Error\<close> whose message is the JSON text of the API error, which the
  \<open>catch\<close> block parses; \<open>JSON.stringify\<close> of an \<open>Error\<close> is \<open>{}\<close>. The
  safety block is the \<open>Error\<close> the service itself throws
  (src/services/geminiService.ts, line 174).
\<close>

definition quoted :: "string \<Rightarrow> string" where
  "quoted t = CHR 0x22 # t @ [CHR 0x22]"

definition apiErrorText :: "string \<Rightarrow> string \<Rightarrow> string \<Rightarrow> string" where
  "apiErrorText code message status =
     ''{'' @ quoted ''error'' @ '':{'' @ quoted ''code'' @ '':'' @ code @ '','' @ quoted ''message''
       @ '':'' @ quoted message @ '','' @ quoted ''status'' @ '':'' @ quoted status @ ''}}''"

definition apiError :: "int \<Rightarrow> string \<Rightarrow> string \<Rightarrow> string \<Rightarrow> thrown" where
  "apiError code codeText message status =
     \<lparr>thrown_message = Some (apiErrorText codeText message status),
      thrown_error = None,
      thrown_embedded = Some \<lparr>err_code = Some code, err_status = Some status,
                              err_message = Some message\<rparr>,
      thrown_json = ''{}''\<rparr>"

text \<open>
  An overload, a quota error, a safety block, and a quota error whose message
  gives a retry time.
\<close>

definition overloadError :: thrown where
  "overloadError = apiError 503 ''503'' ''The model is overloaded.'' ''UNAVAILABLE''"

definition quotaError :: thrown where
  "quotaError = apiError 429 ''429'' ''Resource has been exhausted (check quota).'' ''RESOURCE_EXHAUSTED''"

definition safetyError :: thrown where
  "safetyError =
     \<lparr>thrown_message = Some ''SAFETY_BLOCK: The request was blocked by safety filters.'',
      thrown_error = None, thrown_embedded = None, thrown_json = ''{}''\<rparr>"

definition timedQuotaError :: thrown where
  "timedQuotaError = apiError 429 ''429'' ''Quota exceeded. Please retry in 54.400s.'' ''RESOURCE_EXHAUSTED''"

text \<open>A service on which every call throws the given failure.\<close>

definition failing :: "thrown \<Rightarrow> services" where
  "failing e =
     \<lparr>editImage = (\<lambda>attempt call. Inl e),
      generateImage = (\<lambda>attempt p model ar. Inl e),
      parsePromptForEntities = (\<lambda>attempt p cs bs. Inl e),
      createPaddedImage = (\<lambda>b64 ar. Inl e),
      optimizeImageForApi = (\<lambda>u. \<lparr>mimeType = ''image/png'', base64Data = drop 22 u\<rparr>),
      resolvePrompt = (\<lambda>p model. (p, None))\<rparr>"

text \<open>A service that answers every call.\<close>

definition answering :: services where
  "answering =
     \<lparr>editImage = (\<lambda>attempt call. Inr ''RURJVA==''),
      generateImage = (\<lambda>attempt p model ar. Inr ''R0VO''),
      parsePromptForEntities = (\<lambda>attempt p cs bs. Inr (None, None)),
      createPaddedImage = (\<lambda>b64 ar. Inr (pngDataUrl b64)),
      optimizeImageForApi = (\<lambda>u. \<lparr>mimeType = ''image/png'', base64Data = drop 22 u\<rparr>),
      resolvePrompt = (\<lambda>p model. (p, None))\<rparr>"

text \<open>
  One selected image of 900 by 1600 with a paint mask, and one selected drawing
  canvas as \<open>addDrawingCanvas\<close> creates it for 9:16, not yet painted.
\<close>

definition one_selected :: editor_state where
  "one_selected =
     (initial_state ''key'')\<lparr>
        images := [(image_at ''img_1'' 50)\<lparr>maskSrc := Some ''data:image/png;base64,TUFTSw==''\<rparr>],
        layerOrder := [''img_1''],
        selectedImageIds := [''img_1'']\<rparr>"

definition blank_canvas_selected :: editor_state where
  "blank_canvas_selected =
     (initial_state ''key'')\<lparr>
        drawingCanvases := [\<lparr>can_id = ''canvas_7'', can_x = 0, can_y = 0, can_width = 1024,
                             can_height = 1820, drawingSrc = Some []\<rparr>],
        layerOrder := [''canvas_7''],
        selectedDrawingCanvasIds := [''canvas_7'']\<rparr>"

text \<open>
  Stamps for the asset names, and a document with a generated video whose
  \<open>videoSrc\<close> is the object URL that \<open>generateVideo\<close> returned.
\<close>

definition demo_stamps :: "nat \<Rightarrow> nat \<times> string" where
  "demo_stamps k = (41 + k, ''r4nd0m'')"

definition video_document :: editor_state where
  "video_document =
     (initial_state ''key'')\<lparr>
        images := [(image_at ''vid_7'' 50)\<lparr>classification := Video,
                     videoSrc := Some ''blob:http://localhost:3000/8f1c''\<rparr>],
        layerOrder := [''vid_7'']\<rparr>"

text \<open>The selected image with a mask, and a second image that is not selected.\<close>

definition two_images :: editor_state where
  "two_images =
     one_selected\<lparr>images := images one_selected @ [image_at ''img_2'' 1000],
                  layerOrder := [''img_1'', ''img_2''],
                  activeTool := Select\<rparr>"

section \<open>Properties of the transform and of the layer order\<close>

lemma layerOrder_handleNodeSelect:
  "layerOrder (handleNodeSelect shiftKey i ty s) = handleMoveToFront i (layerOrder s)"
  by (cases ty) (simp_all add: handleNodeSelect_def Let_def)

lemma handleMoveToFront_last:
  "handleMoveToFront i prev \<noteq> [] \<and> last (handleMoveToFront i prev) = i"
  by (simp add: handleMoveToFront_def)

text \<open>
  C1. For a transform whose scale lies in the range \<open>[0.1, 5]\<close>, the wheel zoom
  anchored at the screen point \<open>P\<close> gives the scale
  \<open>min (max 0.1 (scale + delta)) 5\<close> with \<open>delta = -deltaY * 0.001\<close>, the origin
  \<open>P - (P - origin) * (newScale / scale)\<close>, and the canvas point under \<open>P\<close> is
  the same before and after (exactly, in real arithmetic).
\<close>

theorem handleWheel_keeps_point_under_cursor:
  assumes "0.1 \<le> t_scale t" and "t_scale t \<le> 5"
  shows "t_scale (handleWheel deltaY P t) = min (max 0.1 (t_scale t + (- deltaY * 0.001))) 5
       \<and> t_x (handleWheel deltaY P t)
           = fst P - (fst P - t_x t) * (t_scale (handleWheel deltaY P t) / t_scale t)
       \<and> t_y (handleWheel deltaY P t)
           = snd P - (snd P - t_y t) * (t_scale (handleWheel deltaY P t) / t_scale t)
       \<and> 0.1 \<le> t_scale (handleWheel deltaY P t) \<and> t_scale (handleWheel deltaY P t) \<le> 5
       \<and> screenToCanvas P (handleWheel deltaY P t) = screenToCanvas P t"
proof -
  define n where "n = min (max 0.1 (t_scale t + (- deltaY * 0.001))) (5::real)"
  have n_pos: "n \<noteq> 0" and n_range: "0.1 \<le> n" "n \<le> 5"
    by (simp_all add: n_def min_def max_def)
  have s_pos: "t_scale t \<noteq> 0"
    using assms(1) by auto
  have sc: "t_scale (handleWheel deltaY P t) = n"
    by (simp add: handleWheel_def Let_def n_def)
  have x: "t_x (handleWheel deltaY P t) = fst P - (fst P - t_x t) * (n / t_scale t)"
    by (simp add: handleWheel_def Let_def n_def)
  have y: "t_y (handleWheel deltaY P t) = snd P - (snd P - t_y t) * (n / t_scale t)"
    by (simp add: handleWheel_def Let_def n_def)
  have "screenToCanvas P (handleWheel deltaY P t) = screenToCanvas P t"
    using n_pos s_pos by (simp add: screenToCanvas_def sc x y)
  then show ?thesis
    using sc x y n_range by (simp add: n_def)
qed

theorem handleWheel_keeps_point_under_cursor_witness:
  "t_scale (handleWheel (-100) (300, 200) \<lparr>t_x = 400, t_y = 300, t_scale = 0.2\<rparr>) = 0.3
   \<and> t_x (handleWheel (-100) (300, 200) \<lparr>t_x = 400, t_y = 300, t_scale = 0.2\<rparr>) = 450
   \<and> screenToCanvas (300, 200) (handleWheel (-100) (300, 200) \<lparr>t_x = 400, t_y = 300, t_scale = 0.2\<rparr>)
       = screenToCanvas (300, 200) \<lparr>t_x = 400, t_y = 300, t_scale = 0.2\<rparr>
   \<and> screenToCanvas (300, 200) \<lparr>t_x = 400, t_y = 300, t_scale = 0.2\<rparr> = (-500, -500)"
  using handleWheel_keeps_point_under_cursor
          [of "\<lparr>t_x = 400, t_y = 300, t_scale = 0.2\<rparr>" "-100" "(300, 200)"]
  by (simp add: screenToCanvas_def)

text \<open>
  C7. Moving an id to the front twice in a row gives the same layer order as
  moving it once.
\<close>

theorem handleMoveToFront_idempotent:
  "handleMoveToFront i (handleMoveToFront i order) = handleMoveToFront i order"
  by (simp add: handleMoveToFront_def)

lemma handleMoveToFront_others:
  "filter (\<lambda>j. j \<noteq> i) (handleMoveToFront i prev) = filter (\<lambda>j. j \<noteq> i) prev"
  by (simp add: handleMoveToFront_def)

lemma handleMoveToFront_set: "set (handleMoveToFront i prev) = insert i (set prev)"
proof (cases "prev \<noteq> [] \<and> last prev = i")
  case True
  then have "i \<in> set prev" using last_in_set by blast
  then show ?thesis using True by (auto simp: handleMoveToFront_def)
next
  case False
  then show ?thesis by (auto simp: handleMoveToFront_def)
qed

lemma distinct_last_filter:
  "distinct xs \<Longrightarrow> xs \<noteq> [] \<Longrightarrow> filter (\<lambda>j. j \<noteq> last xs) xs @ [last xs] = xs"
proof (induction xs rule: rev_induct)
  case Nil
  then show ?case by simp
next
  case (snoc x xs)
  then have "x \<notin> set xs" by simp
  then have "filter (\<lambda>j. j \<noteq> x) xs = xs" by (auto simp: filter_id_conv)
  then show ?case by simp
qed

lemma handleMoveToFront_distinct:
  assumes "distinct prev"
  shows "handleMoveToFront i prev = filter (\<lambda>j. j \<noteq> i) prev @ [i]"
    and "distinct (handleMoveToFront i prev)"
proof -
  show eq: "handleMoveToFront i prev = filter (\<lambda>j. j \<noteq> i) prev @ [i]"
    using distinct_last_filter [OF assms] by (auto simp: handleMoveToFront_def)
  show "distinct (handleMoveToFront i prev)"
    unfolding eq using assms by simp
qed

lemma handleMoveToFront_unchanged:
  "(handleMoveToFront i prev = prev) = (prev \<noteq> [] \<and> last prev = i)"
proof (cases "prev \<noteq> [] \<and> last prev = i")
  case True
  then show ?thesis by (simp add: handleMoveToFront_def)
next
  case False
  have "last (handleMoveToFront i prev) = i" "handleMoveToFront i prev \<noteq> []"
    by (simp_all add: handleMoveToFront_last)
  then have "handleMoveToFront i prev \<noteq> prev" using False by metis
  then show ?thesis using False by simp
qed

text \<open>
  C10. Every call of \<open>handleNodeSelect\<close> (the handler the image, text and
  drawing-canvas nodes call on pointer-down, whatever the tool, the shift key
  or the kind of node) relocates the id to the end of the layer order: the new
  order is the one \<open>handleMoveToFront\<close> gives, it ends with the id, it holds
  the id and the ids it held before, and the other ids keep their places
  relative to each other. When no id occurs twice in the old order, the new
  order is the old one without the id, followed by the id, and again no id
  occurs twice. The order is left as it was exactly when the id was already
  its last element.
\<close>

theorem handleNodeSelect_moves_to_front:
  "layerOrder (handleNodeSelect shiftKey i ty s) = handleMoveToFront i (layerOrder s)
   \<and> layerOrder (handleNodeSelect shiftKey i ty s) \<noteq> []
   \<and> last (layerOrder (handleNodeSelect shiftKey i ty s)) = i
   \<and> set (layerOrder (handleNodeSelect shiftKey i ty s)) = insert i (set (layerOrder s))
   \<and> filter (\<lambda>j. j \<noteq> i) (layerOrder (handleNodeSelect shiftKey i ty s))
       = filter (\<lambda>j. j \<noteq> i) (layerOrder s)
   \<and> (distinct (layerOrder s) \<longrightarrow>
        layerOrder (handleNodeSelect shiftKey i ty s) = filter (\<lambda>j. j \<noteq> i) (layerOrder s) @ [i]
        \<and> distinct (layerOrder (handleNodeSelect shiftKey i ty s)))
   \<and> ((layerOrder (handleNodeSelect shiftKey i ty s) = layerOrder s)
        = (layerOrder s \<noteq> [] \<and> last (layerOrder s) = i))"
  using handleMoveToFront_distinct [of "layerOrder s" i]
  by (simp add: layerOrder_handleNodeSelect handleMoveToFront_last handleMoveToFront_set
      handleMoveToFront_others handleMoveToFront_unchanged)

theorem handleNodeSelect_moves_to_front_witness:
  "distinct (layerOrder two_images)
   \<and> layerOrder two_images = [''img_1'', ''img_2'']
   \<and> layerOrder (handleNodeSelect False ''img_1'' ImageNode two_images) = [''img_2'', ''img_1'']
   \<and> layerOrder (handleNodeSelect True ''img_2'' ImageNode two_images) = [''img_1'', ''img_2'']"
proof -
  have lo: "layerOrder two_images = [''img_1'', ''img_2'']"
    by (simp add: two_images_def)
  have "layerOrder (handleNodeSelect False ''img_1'' ImageNode two_images) = [''img_2'', ''img_1'']"
    using handleNodeSelect_moves_to_front [of False "''img_1''" ImageNode two_images]
    by (simp add: lo handleMoveToFront_def)
  moreover have "layerOrder (handleNodeSelect True ''img_2'' ImageNode two_images) = [''img_1'', ''img_2'']"
    using handleNodeSelect_moves_to_front [of True "''img_2''" ImageNode two_images]
    by (simp add: lo handleMoveToFront_def)
  ultimately show ?thesis by (simp add: lo)
qed

section \<open>Selection and layer order under add and delete\<close>

lemma addImageToCanvas_cases:
  "addImageToCanvas br now imgSrc cls opts s = s
   \<or> (\<exists>img. img_id img = (if truthy (opt_id opts) then the (opt_id opts) else ''img_'' @ string_of_nat now)
          \<and> maskSrc img = None
          \<and> addImageToCanvas br now imgSrc cls opts s = appended_image img s)"
proof (cases "decodeImage br imgSrc")
  case None
  then show ?thesis by (simp add: addImageToCanvas_def)
next
  case (Some sz)
  obtain nw nh where sz: "sz = (nw, nh)" by (cases sz)
  show ?thesis
    apply (rule disjI2)
    apply (simp only: addImageToCanvas_def Some sz option.case prod.case Let_def appended_image_def)
    apply (rule exI)
    apply (intro conjI)
      prefer 3
      apply (rule refl)
     apply simp
    apply simp
    done
qed

lemma selection_live_appended_image:
  "selection_live s \<Longrightarrow> selection_live (appended_image img s)"
  by (simp add: selection_live_def appended_image_def)

lemma selection_live_addImageToCanvas:
  "selection_live s \<Longrightarrow> selection_live (addImageToCanvas br now imgSrc cls opts s)"
  using addImageToCanvas_cases [of br now imgSrc cls opts s]
  by (auto simp: selection_live_appended_image)

lemma selection_live_addTextToCanvas:
  "selection_live s \<Longrightarrow> selection_live (addTextToCanvas now px py s)"
  by (simp add: selection_live_def addTextToCanvas_def Let_def)

lemma selection_live_addDrawingCanvas:
  "selection_live s \<Longrightarrow> selection_live (addDrawingCanvas br now s)"
  by (simp add: selection_live_def addDrawingCanvas_def Let_def)

lemma selection_live_handleAddVideoToCanvas:
  "selection_live s \<Longrightarrow> selection_live (handleAddVideoToCanvas now vsrc ar source s)"
  by (cases source) (simp_all add: selection_live_def handleAddVideoToCanvas_def Let_def)

lemma selection_live_deleteImages:
  "selection_live s \<Longrightarrow> selection_live (deleteImages ids s)"
  by (simp add: selection_live_def deleteImages_def)

lemma selection_live_deleteTextObjects:
  "selection_live s \<Longrightarrow> selection_live (deleteTextObjects ids s)"
  by (simp add: selection_live_def deleteTextObjects_def)

lemma selection_live_deleteDrawingCanvases:
  "selection_live s \<Longrightarrow> selection_live (deleteDrawingCanvases ids s)"
  by (simp add: selection_live_def deleteDrawingCanvases_def)

lemma selection_live_apply_op:
  "selection_live s \<Longrightarrow> selection_live (apply_op br op s)"
  by (cases op)
     (simp_all add: selection_live_addImageToCanvas selection_live_addTextToCanvas
        selection_live_addDrawingCanvas selection_live_handleAddVideoToCanvas
        selection_live_deleteImages selection_live_deleteTextObjects
        selection_live_deleteDrawingCanvases)

lemma selection_live_run_ops:
  "selection_live s \<Longrightarrow> selection_live (run_ops br ops s)"
  by (induction ops arbitrary: s) (simp_all add: selection_live_apply_op)

lemma canvas_prefix: "is_canvas_id i \<Longrightarrow> take 4 i = ''canv''"
proof -
  assume "is_canvas_id i"
  then have "take 4 (take 7 i) = take 4 ''canvas_''" by (simp only: is_canvas_id_def)
  then show ?thesis by simp
qed

lemma kinds_disjoint:
  "is_image_id i \<Longrightarrow> \<not> is_text_id i" "is_image_id i \<Longrightarrow> \<not> is_canvas_id i"
  "is_text_id i \<Longrightarrow> \<not> is_canvas_id i"
  using canvas_prefix [of i] by (auto simp: is_image_id_def is_text_id_def)

lemma doc_wf_appended_image:
  "doc_wf s \<Longrightarrow> is_image_id (img_id img) \<Longrightarrow> img_id img \<notin> set (layerOrder s)
   \<Longrightarrow> doc_wf (appended_image img s)"
  by (auto simp: doc_wf_def appended_image_def)

lemma doc_wf_addImageToCanvas:
  assumes "doc_wf s" "op_ok (AddImage now imgSrc cls opts) s"
  shows "doc_wf (addImageToCanvas br now imgSrc cls opts s)"
proof -
  have fresh: "''img_'' @ string_of_nat now \<notin> set (layerOrder s)" and noid: "opt_id opts = None"
    using assms(2) by simp_all
  have img: "is_image_id (''img_'' @ string_of_nat now)"
    by (simp add: is_image_id_def)
  from addImageToCanvas_cases [of br now imgSrc cls opts s] show ?thesis
  proof
    assume "addImageToCanvas br now imgSrc cls opts s = s"
    then show ?thesis using assms(1) by simp
  next
    assume "\<exists>img. img_id img = (if truthy (opt_id opts) then the (opt_id opts) else ''img_'' @ string_of_nat now)
          \<and> maskSrc img = None
          \<and> addImageToCanvas br now imgSrc cls opts s = appended_image img s"
    then obtain img where "img_id img = ''img_'' @ string_of_nat now"
      and "addImageToCanvas br now imgSrc cls opts s = appended_image img s"
      using noid by (auto simp: truthy_def)
    then show ?thesis
      using doc_wf_appended_image [of s img] assms(1) fresh img by simp
  qed
qed

lemma doc_wf_addTextToCanvas:
  "doc_wf s \<Longrightarrow> op_ok (AddText now px py) s \<Longrightarrow> doc_wf (addTextToCanvas now px py s)"
  by (auto simp: doc_wf_def addTextToCanvas_def Let_def is_text_id_def)

lemma doc_wf_addDrawingCanvas:
  "doc_wf s \<Longrightarrow> op_ok (AddCanvas now) s \<Longrightarrow> doc_wf (addDrawingCanvas br now s)"
  by (auto simp: doc_wf_def addDrawingCanvas_def Let_def is_canvas_id_def)

lemma doc_wf_handleAddVideoToCanvas:
  "doc_wf s \<Longrightarrow> op_ok (AddVideo now vsrc ar source) s
   \<Longrightarrow> doc_wf (handleAddVideoToCanvas now vsrc ar source s)"
  by (cases source) (auto simp: doc_wf_def handleAddVideoToCanvas_def Let_def is_image_id_def)

lemma doc_wf_distinct: "doc_wf s \<Longrightarrow> distinct (layerOrder s)"
  by (simp add: doc_wf_def)

lemma doc_wf_image: "doc_wf s \<Longrightarrow> img \<in> set (images s) \<Longrightarrow> img_id img \<in> set (layerOrder s) \<and> is_image_id (img_id img)"
  unfolding doc_wf_def by blast

lemma doc_wf_text: "doc_wf s \<Longrightarrow> txt \<in> set (textObjects s) \<Longrightarrow> txt_id txt \<in> set (layerOrder s) \<and> is_text_id (txt_id txt)"
  unfolding doc_wf_def by blast

lemma doc_wf_canvas: "doc_wf s \<Longrightarrow> c \<in> set (drawingCanvases s) \<Longrightarrow> can_id c \<in> set (layerOrder s) \<and> is_canvas_id (can_id c)"
  unfolding doc_wf_def by blast

lemma doc_wfI:
  assumes "distinct (layerOrder s)"
    and "\<And>img. img \<in> set (images s) \<Longrightarrow> img_id img \<in> set (layerOrder s) \<and> is_image_id (img_id img)"
    and "\<And>txt. txt \<in> set (textObjects s) \<Longrightarrow> txt_id txt \<in> set (layerOrder s) \<and> is_text_id (txt_id txt)"
    and "\<And>c. c \<in> set (drawingCanvases s) \<Longrightarrow> can_id c \<in> set (layerOrder s) \<and> is_canvas_id (can_id c)"
  shows "doc_wf s"
  unfolding doc_wf_def using assms by blast

lemma deleteImages_fields:
  "ids \<noteq> [] \<Longrightarrow> images (deleteImages ids s) = filter (\<lambda>img. img_id img \<notin> set ids) (images s)"
  "ids \<noteq> [] \<Longrightarrow> layerOrder (deleteImages ids s) = filter (\<lambda>i. i \<notin> set ids) (layerOrder s)"
  "ids \<noteq> [] \<Longrightarrow> selectedImageIds (deleteImages ids s) = []"
  "textObjects (deleteImages ids s) = textObjects s"
  "drawingCanvases (deleteImages ids s) = drawingCanvases s"
  "selectedTextIds (deleteImages ids s) = selectedTextIds s"
  "selectedDrawingCanvasIds (deleteImages ids s) = selectedDrawingCanvasIds s"
  by (simp_all add: deleteImages_def)

lemma deleteTextObjects_fields:
  "ids \<noteq> [] \<Longrightarrow> textObjects (deleteTextObjects ids s) = filter (\<lambda>txt. txt_id txt \<notin> set ids) (textObjects s)"
  "ids \<noteq> [] \<Longrightarrow> layerOrder (deleteTextObjects ids s) = filter (\<lambda>i. i \<notin> set ids) (layerOrder s)"
  "ids \<noteq> [] \<Longrightarrow> selectedTextIds (deleteTextObjects ids s) = []"
  "images (deleteTextObjects ids s) = images s"
  "drawingCanvases (deleteTextObjects ids s) = drawingCanvases s"
  "selectedImageIds (deleteTextObjects ids s) = selectedImageIds s"
  "selectedDrawingCanvasIds (deleteTextObjects ids s) = selectedDrawingCanvasIds s"
  by (simp_all add: deleteTextObjects_def)

lemma deleteDrawingCanvases_fields:
  "ids \<noteq> [] \<Longrightarrow> drawingCanvases (deleteDrawingCanvases ids s) = filter (\<lambda>c. can_id c \<notin> set ids) (drawingCanvases s)"
  "ids \<noteq> [] \<Longrightarrow> layerOrder (deleteDrawingCanvases ids s) = filter (\<lambda>i. i \<notin> set ids) (layerOrder s)"
  "ids \<noteq> [] \<Longrightarrow> selectedDrawingCanvasIds (deleteDrawingCanvases ids s) = []"
  "images (deleteDrawingCanvases ids s) = images s"
  "textObjects (deleteDrawingCanvases ids s) = textObjects s"
  "selectedImageIds (deleteDrawingCanvases ids s) = selectedImageIds s"
  "selectedTextIds (deleteDrawingCanvases ids s) = selectedTextIds s"
  by (simp_all add: deleteDrawingCanvases_def)

lemma doc_wf_deleteImages:
  assumes wf: "doc_wf s" and sub: "set ids \<subseteq> img_id ` set (images s)"
  shows "doc_wf (deleteImages ids s)"
proof (cases "ids = []")
  case True
  then show ?thesis using wf by (simp add: deleteImages_def)
next
  case False
  have imgs: "\<And>j. j \<in> set ids \<Longrightarrow> is_image_id j"
    using sub doc_wf_image [OF wf] by blast
  show ?thesis
  proof (rule doc_wfI)
    show "distinct (layerOrder (deleteImages ids s))"
      using False doc_wf_distinct [OF wf] by (simp add: deleteImages_fields)
  next
    fix img assume "img \<in> set (images (deleteImages ids s))"
    then have "img \<in> set (images s)" "img_id img \<notin> set ids"
      using False by (simp_all add: deleteImages_fields)
    then show "img_id img \<in> set (layerOrder (deleteImages ids s)) \<and> is_image_id (img_id img)"
      using False doc_wf_image [OF wf] by (simp add: deleteImages_fields)
  next
    fix tx assume "tx \<in> set (textObjects (deleteImages ids s))"
    then have m: "tx \<in> set (textObjects s)" by (simp add: deleteImages_fields)
    then have "is_text_id (txt_id tx)" using doc_wf_text [OF wf] by blast
    then have "txt_id tx \<notin> set ids" using imgs kinds_disjoint(1) by blast
    then show "txt_id tx \<in> set (layerOrder (deleteImages ids s)) \<and> is_text_id (txt_id tx)"
      using False doc_wf_text [OF wf m] by (simp add: deleteImages_fields)
  next
    fix c assume "c \<in> set (drawingCanvases (deleteImages ids s))"
    then have m: "c \<in> set (drawingCanvases s)" by (simp add: deleteImages_fields)
    then have "is_canvas_id (can_id c)" using doc_wf_canvas [OF wf] by blast
    then have "can_id c \<notin> set ids" using imgs kinds_disjoint(2) by blast
    then show "can_id c \<in> set (layerOrder (deleteImages ids s)) \<and> is_canvas_id (can_id c)"
      using False doc_wf_canvas [OF wf m] by (simp add: deleteImages_fields)
  qed
qed

lemma doc_wf_deleteTextObjects:
  assumes wf: "doc_wf s" and sub: "set ids \<subseteq> txt_id ` set (textObjects s)"
  shows "doc_wf (deleteTextObjects ids s)"
proof (cases "ids = []")
  case True
  then show ?thesis using wf by (simp add: deleteTextObjects_def)
next
  case False
  have txts: "\<And>j. j \<in> set ids \<Longrightarrow> is_text_id j"
    using sub doc_wf_text [OF wf] by blast
  show ?thesis
  proof (rule doc_wfI)
    show "distinct (layerOrder (deleteTextObjects ids s))"
      using False doc_wf_distinct [OF wf] by (simp add: deleteTextObjects_fields)
  next
    fix img assume "img \<in> set (images (deleteTextObjects ids s))"
    then have m: "img \<in> set (images s)" by (simp add: deleteTextObjects_fields)
    then have "is_image_id (img_id img)" using doc_wf_image [OF wf] by blast
    then have "img_id img \<notin> set ids" using txts kinds_disjoint(1) by blast
    then show "img_id img \<in> set (layerOrder (deleteTextObjects ids s)) \<and> is_image_id (img_id img)"
      using False doc_wf_image [OF wf m] by (simp add: deleteTextObjects_fields)
  next
    fix tx assume "tx \<in> set (textObjects (deleteTextObjects ids s))"
    then have "tx \<in> set (textObjects s)" "txt_id tx \<notin> set ids"
      using False by (simp_all add: deleteTextObjects_fields)
    then show "txt_id tx \<in> set (layerOrder (deleteTextObjects ids s)) \<and> is_text_id (txt_id tx)"
      using False doc_wf_text [OF wf] by (simp add: deleteTextObjects_fields)
  next
    fix c assume "c \<in> set (drawingCanvases (deleteTextObjects ids s))"
    then have m: "c \<in> set (drawingCanvases s)" by (simp add: deleteTextObjects_fields)
    then have "is_canvas_id (can_id c)" using doc_wf_canvas [OF wf] by blast
    then have "can_id c \<notin> set ids" using txts kinds_disjoint(3) by blast
    then show "can_id c \<in> set (layerOrder (deleteTextObjects ids s)) \<and> is_canvas_id (can_id c)"
      using False doc_wf_canvas [OF wf m] by (simp add: deleteTextObjects_fields)
  qed
qed

lemma doc_wf_deleteDrawingCanvases:
  assumes wf: "doc_wf s" and sub: "set ids \<subseteq> can_id ` set (drawingCanvases s)"
  shows "doc_wf (deleteDrawingCanvases ids s)"
proof (cases "ids = []")
  case True
  then show ?thesis using wf by (simp add: deleteDrawingCanvases_def)
next
  case False
  have cans: "\<And>j. j \<in> set ids \<Longrightarrow> is_canvas_id j"
    using sub doc_wf_canvas [OF wf] by blast
  show ?thesis
  proof (rule doc_wfI)
    show "distinct (layerOrder (deleteDrawingCanvases ids s))"
      using False doc_wf_distinct [OF wf] by (simp add: deleteDrawingCanvases_fields)
  next
    fix img assume "img \<in> set (images (deleteDrawingCanvases ids s))"
    then have m: "img \<in> set (images s)" by (simp add: deleteDrawingCanvases_fields)
    then have "is_image_id (img_id img)" using doc_wf_image [OF wf] by blast
    then have "img_id img \<notin> set ids" using cans kinds_disjoint(2) by blast
    then show "img_id img \<in> set (layerOrder (deleteDrawingCanvases ids s)) \<and> is_image_id (img_id img)"
      using False doc_wf_image [OF wf m] by (simp add: deleteDrawingCanvases_fields)
  next
    fix tx assume "tx \<in> set (textObjects (deleteDrawingCanvases ids s))"
    then have m: "tx \<in> set (textObjects s)" by (simp add: deleteDrawingCanvases_fields)
    then have "is_text_id (txt_id tx)" using doc_wf_text [OF wf] by blast
    then have "txt_id tx \<notin> set ids" using cans kinds_disjoint(3) by blast
    then show "txt_id tx \<in> set (layerOrder (deleteDrawingCanvases ids s)) \<and> is_text_id (txt_id tx)"
      using False doc_wf_text [OF wf m] by (simp add: deleteDrawingCanvases_fields)
  next
    fix c assume "c \<in> set (drawingCanvases (deleteDrawingCanvases ids s))"
    then have "c \<in> set (drawingCanvases s)" "can_id c \<notin> set ids"
      using False by (simp_all add: deleteDrawingCanvases_fields)
    then show "can_id c \<in> set (layerOrder (deleteDrawingCanvases ids s)) \<and> is_canvas_id (can_id c)"
      using False doc_wf_canvas [OF wf] by (simp add: deleteDrawingCanvases_fields)
  qed
qed

lemma doc_wf_apply_op:
  "doc_wf s \<Longrightarrow> op_ok op s \<Longrightarrow> doc_wf (apply_op br op s)"
proof (cases op)
  case (AddImage now imgSrc cls opts)
  then show "doc_wf s \<Longrightarrow> op_ok op s \<Longrightarrow> doc_wf (apply_op br op s)"
    using doc_wf_addImageToCanvas by simp
next
  case (AddText now px py)
  then show "doc_wf s \<Longrightarrow> op_ok op s \<Longrightarrow> doc_wf (apply_op br op s)"
    using doc_wf_addTextToCanvas by simp
next
  case (AddCanvas now)
  then show "doc_wf s \<Longrightarrow> op_ok op s \<Longrightarrow> doc_wf (apply_op br op s)"
    using doc_wf_addDrawingCanvas by simp
next
  case (AddVideo now vsrc ar source)
  then show "doc_wf s \<Longrightarrow> op_ok op s \<Longrightarrow> doc_wf (apply_op br op s)"
    using doc_wf_handleAddVideoToCanvas by simp
next
  case (DeleteImages ids)
  then show "doc_wf s \<Longrightarrow> op_ok op s \<Longrightarrow> doc_wf (apply_op br op s)"
    using doc_wf_deleteImages by simp
next
  case (DeleteTexts ids)
  then show "doc_wf s \<Longrightarrow> op_ok op s \<Longrightarrow> doc_wf (apply_op br op s)"
    using doc_wf_deleteTextObjects by simp
next
  case (DeleteCanvases ids)
  then show "doc_wf s \<Longrightarrow> op_ok op s \<Longrightarrow> doc_wf (apply_op br op s)"
    using doc_wf_deleteDrawingCanvases by simp
qed

lemma doc_wf_run_ops:
  "doc_wf s \<Longrightarrow> ops_ok br ops s \<Longrightarrow> doc_wf (run_ops br ops s)"
  by (induction ops arbitrary: s) (simp_all add: doc_wf_apply_op)

lemma count_list_distinct: "distinct xs \<Longrightarrow> x \<in> set xs \<Longrightarrow> count_list xs x = 1"
  by (induction xs) auto

lemma count_list_filter_out: "x \<in> set ids \<Longrightarrow> count_list (filter (\<lambda>j. j \<notin> set ids) xs) x = 0"
  by (induction xs) auto

lemma removed_onceI:
  assumes "count_list (layerOrder s) i = 1" "count_list (layerOrder s') i = 0"
    "i \<notin> set (selectedImageIds s')" "i \<notin> set (selectedTextIds s')"
    "i \<notin> set (selectedDrawingCanvasIds s')"
    "i \<notin> img_id ` set (images s')" "i \<notin> txt_id ` set (textObjects s')"
    "i \<notin> can_id ` set (drawingCanvases s')"
  shows "removed_once i s s'"
  unfolding removed_once_def using assms by blast

lemma deleteImages_removed_once:
  assumes wf: "doc_wf s" and live: "selection_live s" and i: "i \<in> set ids"
    and img: "i \<in> img_id ` set (images s)"
  shows "removed_once i s (deleteImages ids s)"
proof -
  have ne: "ids \<noteq> []" using i by auto
  have kind: "is_image_id i" and mem: "i \<in> set (layerOrder s)"
    using img doc_wf_image [OF wf] by auto
  have o1: "i \<notin> txt_id ` set (textObjects s)"
    using kind kinds_disjoint(1) doc_wf_text [OF wf] by blast
  have o2: "i \<notin> can_id ` set (drawingCanvases s)"
    using kind kinds_disjoint(2) doc_wf_canvas [OF wf] by blast
  show ?thesis
  proof (rule removed_onceI)
    show "count_list (layerOrder s) i = 1"
      using doc_wf_distinct [OF wf] mem by (rule count_list_distinct)
    show "count_list (layerOrder (deleteImages ids s)) i = 0"
      using ne i by (simp add: deleteImages_fields count_list_filter_out)
    show "i \<notin> set (selectedImageIds (deleteImages ids s))"
      using ne by (simp add: deleteImages_fields)
    show "i \<notin> set (selectedTextIds (deleteImages ids s))"
      using live o1 by (auto simp: deleteImages_fields selection_live_def)
    show "i \<notin> set (selectedDrawingCanvasIds (deleteImages ids s))"
      using live o2 by (auto simp: deleteImages_fields selection_live_def)
    show "i \<notin> img_id ` set (images (deleteImages ids s))"
      using ne i by (auto simp: deleteImages_fields)
    show "i \<notin> txt_id ` set (textObjects (deleteImages ids s))"
      using o1 by (simp add: deleteImages_fields)
    show "i \<notin> can_id ` set (drawingCanvases (deleteImages ids s))"
      using o2 by (simp add: deleteImages_fields)
  qed
qed

lemma deleteTextObjects_removed_once:
  assumes wf: "doc_wf s" and live: "selection_live s" and i: "i \<in> set ids"
    and tx: "i \<in> txt_id ` set (textObjects s)"
  shows "removed_once i s (deleteTextObjects ids s)"
proof -
  have ne: "ids \<noteq> []" using i by auto
  have kind: "is_text_id i" and mem: "i \<in> set (layerOrder s)"
    using tx doc_wf_text [OF wf] by auto
  have o1: "i \<notin> img_id ` set (images s)"
    using kind kinds_disjoint(1) doc_wf_image [OF wf] by blast
  have o2: "i \<notin> can_id ` set (drawingCanvases s)"
    using kind kinds_disjoint(3) doc_wf_canvas [OF wf] by blast
  show ?thesis
  proof (rule removed_onceI)
    show "count_list (layerOrder s) i = 1"
      using doc_wf_distinct [OF wf] mem by (rule count_list_distinct)
    show "count_list (layerOrder (deleteTextObjects ids s)) i = 0"
      using ne i by (simp add: deleteTextObjects_fields count_list_filter_out)
    show "i \<notin> set (selectedTextIds (deleteTextObjects ids s))"
      using ne by (simp add: deleteTextObjects_fields)
    show "i \<notin> set (selectedImageIds (deleteTextObjects ids s))"
      using live o1 by (auto simp: deleteTextObjects_fields selection_live_def)
    show "i \<notin> set (selectedDrawingCanvasIds (deleteTextObjects ids s))"
      using live o2 by (auto simp: deleteTextObjects_fields selection_live_def)
    show "i \<notin> txt_id ` set (textObjects (deleteTextObjects ids s))"
      using ne i by (auto simp: deleteTextObjects_fields)
    show "i \<notin> img_id ` set (images (deleteTextObjects ids s))"
      using o1 by (simp add: deleteTextObjects_fields)
    show "i \<notin> can_id ` set (drawingCanvases (deleteTextObjects ids s))"
      using o2 by (simp add: deleteTextObjects_fields)
  qed
qed

lemma deleteDrawingCanvases_removed_once:
  assumes wf: "doc_wf s" and live: "selection_live s" and i: "i \<in> set ids"
    and cn: "i \<in> can_id ` set (drawingCanvases s)"
  shows "removed_once i s (deleteDrawingCanvases ids s)"
proof -
  have ne: "ids \<noteq> []" using i by auto
  have kind: "is_canvas_id i" and mem: "i \<in> set (layerOrder s)"
    using cn doc_wf_canvas [OF wf] by auto
  have o1: "i \<notin> img_id ` set (images s)"
    using kind kinds_disjoint(2) doc_wf_image [OF wf] by blast
  have o2: "i \<notin> txt_id ` set (textObjects s)"
    using kind kinds_disjoint(3) doc_wf_text [OF wf] by blast
  show ?thesis
  proof (rule removed_onceI)
    show "count_list (layerOrder s) i = 1"
      using doc_wf_distinct [OF wf] mem by (rule count_list_distinct)
    show "count_list (layerOrder (deleteDrawingCanvases ids s)) i = 0"
      using ne i by (simp add: deleteDrawingCanvases_fields count_list_filter_out)
    show "i \<notin> set (selectedDrawingCanvasIds (deleteDrawingCanvases ids s))"
      using ne by (simp add: deleteDrawingCanvases_fields)
    show "i \<notin> set (selectedImageIds (deleteDrawingCanvases ids s))"
      using live o1 by (auto simp: deleteDrawingCanvases_fields selection_live_def)
    show "i \<notin> set (selectedTextIds (deleteDrawingCanvases ids s))"
      using live o2 by (auto simp: deleteDrawingCanvases_fields selection_live_def)
    show "i \<notin> can_id ` set (drawingCanvases (deleteDrawingCanvases ids s))"
      using ne i by (auto simp: deleteDrawingCanvases_fields)
    show "i \<notin> img_id ` set (images (deleteDrawingCanvases ids s))"
      using o1 by (simp add: deleteDrawingCanvases_fields)
    show "i \<notin> txt_id ` set (textObjects (deleteDrawingCanvases ids s))"
      using o2 by (simp add: deleteDrawingCanvases_fields)
  qed
qed

lemma initial_invariants: "selection_live (initial_state key)" "doc_wf (initial_state key)"
  by (simp_all add: selection_live_def doc_wf_def initial_state_def)

text \<open>
  After any sequence of add and delete operations from the initial state,
  every id in each of the three selection lists is the id of a live object of
  that kind.
\<close>

lemma selection_live_after_ops: "selection_live (run_ops br ops (initial_state key))"
  by (rule selection_live_run_ops) (rule initial_invariants)

text \<open>
  When every add creates an id not yet in use and every delete handler is
  called with ids of live objects of its kind, deleting a live object removes
  its id from all three selection lists, and from the layer order, where it
  occurred exactly once.
\<close>

lemma fresh_ids_removed_once:
  assumes "ops_ok br ops (initial_state key)" and "i \<in> set ids"
  shows "i \<in> img_id ` set (images (run_ops br ops (initial_state key))) \<Longrightarrow>
           removed_once i (run_ops br ops (initial_state key))
             (deleteImages ids (run_ops br ops (initial_state key)))"
    and "i \<in> txt_id ` set (textObjects (run_ops br ops (initial_state key))) \<Longrightarrow>
           removed_once i (run_ops br ops (initial_state key))
             (deleteTextObjects ids (run_ops br ops (initial_state key)))"
    and "i \<in> can_id ` set (drawingCanvases (run_ops br ops (initial_state key))) \<Longrightarrow>
           removed_once i (run_ops br ops (initial_state key))
             (deleteDrawingCanvases ids (run_ops br ops (initial_state key)))"
proof -
  define s where "s = run_ops br ops (initial_state key)"
  have live: "selection_live s"
    unfolding s_def by (rule selection_live_after_ops)
  have wf: "doc_wf s"
    unfolding s_def using assms(1) by (intro doc_wf_run_ops initial_invariants)
  show "i \<in> img_id ` set (images (run_ops br ops (initial_state key))) \<Longrightarrow>
           removed_once i (run_ops br ops (initial_state key))
             (deleteImages ids (run_ops br ops (initial_state key)))"
    using deleteImages_removed_once [OF wf live assms(2)] unfolding s_def .
  show "i \<in> txt_id ` set (textObjects (run_ops br ops (initial_state key))) \<Longrightarrow>
           removed_once i (run_ops br ops (initial_state key))
             (deleteTextObjects ids (run_ops br ops (initial_state key)))"
    using deleteTextObjects_removed_once [OF wf live assms(2)] unfolding s_def .
  show "i \<in> can_id ` set (drawingCanvases (run_ops br ops (initial_state key))) \<Longrightarrow>
           removed_once i (run_ops br ops (initial_state key))
             (deleteDrawingCanvases ids (run_ops br ops (initial_state key)))"
    using deleteDrawingCanvases_removed_once [OF wf live assms(2)] unfolding s_def .
qed

lemma string_of_nat_digit: "n < 10 \<Longrightarrow> string_of_nat n = [dec_digit n]"
  by (simp add: string_of_nat.simps)

lemma demo_ids:
  "string_of_nat 41 = ''41''"
  "string_of_nat 42 = ''42''"
  "string_of_nat 43 = ''43''"
  by (simp_all add: string_of_nat.simps [of 41] string_of_nat.simps [of 42]
      string_of_nat.simps [of 43] string_of_nat.simps [of 4] dec_digit_def)

lemma demo_ops_ok: "ops_ok demo_browser demo_ops (initial_state [])"
  by (simp add: demo_ops_def demo_browser_def initial_state_def no_options_def demo_ids
      addImageToCanvas_def addTextToCanvas_def addDrawingCanvas_def Let_def truthy_def)

lemma demo_live:
  "''img_41'' \<in> img_id ` set (images (run_ops demo_browser demo_ops (initial_state [])))"
  "''txt_42'' \<in> txt_id ` set (textObjects (run_ops demo_browser demo_ops (initial_state [])))"
  "''canvas_43'' \<in> can_id ` set (drawingCanvases (run_ops demo_browser demo_ops (initial_state [])))"
  by (simp_all add: demo_ops_def demo_browser_def initial_state_def no_options_def demo_ids
      addImageToCanvas_def addTextToCanvas_def addDrawingCanvas_def Let_def truthy_def)

lemma demo_ops_removed_once:
  "removed_once ''img_41'' (run_ops demo_browser demo_ops (initial_state []))
     (deleteImages [''img_41''] (run_ops demo_browser demo_ops (initial_state [])))"
  "removed_once ''txt_42'' (run_ops demo_browser demo_ops (initial_state []))
     (deleteTextObjects [''txt_42''] (run_ops demo_browser demo_ops (initial_state [])))"
  "removed_once ''canvas_43'' (run_ops demo_browser demo_ops (initial_state []))
     (deleteDrawingCanvases [''canvas_43''] (run_ops demo_browser demo_ops (initial_state [])))"
  using fresh_ids_removed_once [OF demo_ops_ok] demo_live by simp_all

lemma colliding_adds_state:
  "run_ops demo_browser colliding_adds (initial_state ''key'')
     = (initial_state ''key'')\<lparr>
         images := [(image_at ''img_41'' 2550)\<lparr>img_y := 1200\<rparr>,
                    (image_at ''img_41'' 2550)\<lparr>src := ''data:image/png;base64,BBBB'', img_y := 1200\<rparr>],
         layerOrder := [''img_41'', ''img_41''],
         selectedImageIds := [''img_41''],
         activeTool := Select\<rparr>"
  by (simp add: colliding_adds_def demo_browser_def initial_state_def no_options_def demo_ids
      addImageToCanvas_def image_at_def Let_def truthy_def keep_truthy_def)

text \<open>
  C6 fails on the code when two objects receive the same id. The ids are
  \<open>img_\<close>, \<open>txt_\<close>, \<open>canvas_\<close> or \<open>vid_\<close> followed by \<open>Date.now()\<close>, and nothing
  checks that an id is new. After two adds at the same clock value the two
  images share the id \<open>img_41\<close>, which occurs twice in the layer order; the
  selection still holds live ids only, but deleting the selected image deletes
  both images and removes two entries from the layer order, not one.
\<close>

theorem same_clock_adds_share_an_id:
  "map img_id (images (run_ops demo_browser colliding_adds (initial_state ''key'')))
     = [''img_41'', ''img_41'']
   \<and> map src (images (run_ops demo_browser colliding_adds (initial_state ''key'')))
       = [''data:image/png;base64,AAAA'', ''data:image/png;base64,BBBB'']
   \<and> layerOrder (run_ops demo_browser colliding_adds (initial_state ''key''))
       = [''img_41'', ''img_41'']
   \<and> selectedImageIds (run_ops demo_browser colliding_adds (initial_state ''key'')) = [''img_41'']
   \<and> selection_live (run_ops demo_browser colliding_adds (initial_state ''key''))
   \<and> count_list (layerOrder (run_ops demo_browser colliding_adds (initial_state ''key''))) ''img_41'' = 2
   \<and> \<not> removed_once ''img_41'' (run_ops demo_browser colliding_adds (initial_state ''key''))
          (deleteImages [''img_41''] (run_ops demo_browser colliding_adds (initial_state ''key'')))
   \<and> images (deleteImages [''img_41''] (run_ops demo_browser colliding_adds (initial_state ''key'')))
       = []
   \<and> layerOrder (deleteImages [''img_41''] (run_ops demo_browser colliding_adds (initial_state ''key'')))
       = []"
  unfolding colliding_adds_state
  by (simp add: image_at_def deleteImages_def removed_once_def selection_live_def initial_state_def)

section \<open>Reference order and selection badges\<close>










lemma three_selected_items:
  "editableItems three_selected
     = [ImageObj (image_at ''img_2'' 10), ImageObj (image_at ''img_3'' 30), ImageObj (image_at ''img_1'' 50)]"
  by (simp add: editableItems_def three_selected_def image_at_def initial_state_def)




section \<open>Classification of failures\<close>

lemma overloadDelay_values:
  "map overloadDelay [1, 2, 3, 4, 5] = [1000, 2000, 4000, 5000, 5000]"
  by (simp add: overloadDelay_def)

lemma attemptsLoop_thrown:
  assumes "attemptBody sv attempt (fst fp) (snd fp) s0 = Inl e"
  shows "attemptsLoop sv br now promptText fp s0 (attempt # rest) ended st =
     (case onFailure br e attempt of
        Stop n \<Rightarrow>
          \<lparr>outcome = Failed n,
           final = st\<lparr>errorMessage := Some n, isLoading := False, loadingMessage := None\<rparr>,
           slept = []\<rparr>
      | RetryAfter delay message \<Rightarrow>
          (let r = attemptsLoop sv br now promptText fp s0 rest ended
                     (st\<lparr>loadingMessage := Some message\<rparr>)
           in r\<lparr>slept := delay # slept r\<rparr>)
      | GiveUp n \<Rightarrow>
          attemptsLoop sv br now promptText fp s0 rest (Failed n)
            (st\<lparr>errorMessage := Some n, isLoading := False, loadingMessage := None\<rparr>))"
  using assms by simp

lemma attempts_list: "[1..<maxRetries + 1] = [1, 2, 3]"
  by (simp add: maxRetries_def upt_rec)

lemma handleGenerateImage_started:
  assumes "promptText \<noteq> []" "\<not> isLoading s" "apiKey s \<noteq> []"
  shows "handleGenerateImage sv br now promptText s
     = attemptsLoop sv br now promptText (resolvePrompt sv promptText (activeModel s)) s
         [1, 2, 3] NotStarted (s\<lparr>isLoading := True, loadingMessage := None, errorMessage := None\<rparr>)"
  unfolding handleGenerateImage_def attempts_list using assms by simp

text \<open>
  A run in which every attempt throws the same failure: it stops at the first
  attempt when the \<open>catch\<close> block stops there, and otherwise sleeps after the
  first and the second attempt and ends after the third.
\<close>

lemma always_failing_stops:
  assumes "promptText \<noteq> []" "\<not> isLoading s" "apiKey s \<noteq> []"
    and "\<And>attempt. attemptBody sv attempt (fst (resolvePrompt sv promptText (activeModel s)))
                        (snd (resolvePrompt sv promptText (activeModel s))) s = Inl e"
    and "onFailure br e 1 = Stop n"
  shows "handleGenerateImage sv br now promptText s
     = \<lparr>outcome = Failed n,
        final = s\<lparr>isLoading := False, loadingMessage := None, errorMessage := Some n\<rparr>,
        slept = []\<rparr>"
  using assms(5)
  by (simp add: handleGenerateImage_started [OF assms(1-3)] attemptsLoop_thrown [OF assms(4)]
      del: attemptsLoop.simps)

lemma always_failing_retries:
  assumes "promptText \<noteq> []" "\<not> isLoading s" "apiKey s \<noteq> []"
    and "\<And>attempt. attemptBody sv attempt (fst (resolvePrompt sv promptText (activeModel s)))
                        (snd (resolvePrompt sv promptText (activeModel s))) s = Inl e"
    and "onFailure br e 1 = RetryAfter d1 m1" "onFailure br e 2 = RetryAfter d2 m2"
    and "onFailure br e 3 = GiveUp n"
  shows "handleGenerateImage sv br now promptText s
     = \<lparr>outcome = Failed n,
        final = s\<lparr>isLoading := False, loadingMessage := None, errorMessage := Some n\<rparr>,
        slept = [d1, d2]\<rparr>"
  using assms(5-7)
  by (simp add: handleGenerateImage_started [OF assms(1-3)] attemptsLoop_thrown [OF assms(4)]
      Let_def del: attemptsLoop.simps(2))

text \<open>The ASCII characters are the bytes below 128.\<close>

lemma is_ascii_code: "is_ascii c = (of_char c < (128::nat))"
proof (cases c)
  case (Char b0 b1 b2 b3 b4 b5 b6 b7)
  then show ?thesis
    by (cases b7) (simp_all add: is_ascii_def of_char_def)
qed

lemma toLowerCase_ascii: "list_all is_ascii t \<Longrightarrow> toLowerCase br t = map lower_char t"
  by (simp add: toLowerCase_def)

lemma lower_char_simps:
  "map lower_char ''ABCDEFGHIJKLMNOPQRSTUVWXYZ'' = ''abcdefghijklmnopqrstuvwxyz''"
  "map lower_char ''abcdefghijklmnopqrstuvwxyz'' = ''abcdefghijklmnopqrstuvwxyz''"
  "map lower_char ''0123456789 _:.,(){}'' = ''0123456789 _:.,(){}''"
  by (simp_all add: lower_char_def)

lemma apiError_parts:
  "parsedError (apiError code codeText message status)
     = Some \<lparr>err_code = Some code, err_status = Some status, err_message = Some message\<rparr>"
  "message \<noteq> [] \<Longrightarrow> cleanMessage (apiError code codeText message status) = message"
  "rawString br (apiError code codeText message status) = ''{}''"
  using lower_char_simps
  by (simp_all add: parsedError_def cleanMessage_def rawString_def toLowerCase_def is_ascii_def
      apiError_def truthy_def)

lemma msgLower_overloadError: "msgLower br overloadError = ''the model is overloaded.''"
  using lower_char_simps
  by (simp add: overloadError_def msgLower_def apiError_parts toLowerCase_def is_ascii_def)

lemma msgLower_quotaError: "msgLower br quotaError = ''resource has been exhausted (check quota).''"
  using lower_char_simps
  by (simp add: quotaError_def msgLower_def apiError_parts toLowerCase_def is_ascii_def)

lemma msgLower_safetyError:
  "msgLower br safetyError = ''safety_block: the request was blocked by safety filters.''"
  using lower_char_simps
  by (simp add: safetyError_def msgLower_def cleanMessage_def parsedError_def toLowerCase_def
      is_ascii_def truthy_def)

lemma msgLower_timedQuotaError:
  "msgLower br timedQuotaError = ''quota exceeded. please retry in 54.400s.''"
  using lower_char_simps
  by (simp add: timedQuotaError_def msgLower_def apiError_parts toLowerCase_def is_ascii_def)

lemma overloadError_class:
  "\<not> isSafetyBlock br overloadError" "\<not> isClientError br overloadError" "is503 br overloadError"
  by (simp_all add: isSafetyBlock_def isClientError_def is503_def msgLower_overloadError)

lemma quotaError_class:
  "\<not> isSafetyBlock br quotaError" "\<not> isClientError br quotaError" "\<not> is503 br quotaError"
  "is429 br quotaError"
  by (simp_all add: isSafetyBlock_def isClientError_def is503_def is429_def msgLower_quotaError)
     (simp_all add: quotaError_def apiError_parts)

lemma safetyError_class: "isSafetyBlock br safetyError"
  by (simp add: isSafetyBlock_def msgLower_safetyError)

lemma timedQuotaError_class:
  "\<not> isSafetyBlock br timedQuotaError" "isClientError br timedQuotaError"
  "is429 br timedQuotaError"
  by (simp_all add: isSafetyBlock_def isClientError_def is429_def msgLower_timedQuotaError)

lemma onFailure_overloadError:
  "onFailure br overloadError (Suc 0) = RetryAfter 1000 (OverloadRetry 1 1)"
  "onFailure br overloadError 2 = RetryAfter 2000 (OverloadRetry 2 2)"
  "onFailure br overloadError 3 = GiveUp Overloaded503"
  by (simp_all add: onFailure_def overloadError_class maxRetries_def overloadDelay_def)

lemma onFailure_quotaError:
  "onFailure br quotaError (Suc 0) = RetryAfter 5000 (QuotaRetry 1)"
  "onFailure br quotaError 2 = RetryAfter 5000 (QuotaRetry 2)"
  "onFailure br quotaError 3 = GiveUp QuotaExceeded429"
  by (simp_all add: onFailure_def quotaError_class maxRetries_def)

lemma onFailure_timedQuotaError: "onFailure br timedQuotaError attempt = Stop PayloadTooLarge"
  by (simp add: onFailure_def timedQuotaError_class)

lemma onFailure_safetyError: "onFailure br safetyError attempt = Stop SafetyBlocked"
  by (simp add: onFailure_def safetyError_class)

section \<open>Aspect ratio and generation path\<close>

lemma validReferenceData_empty: "(validReferenceData sv s = []) = (referenceItems s = [])"
  by (simp add: validReferenceData_def)

lemma single_item_references:
  assumes "length (editableItems s) = 1" "referenceItems s \<noteq> []"
  shows "validReferenceData sv s = [optimizeImageForApi sv (the (obj_src (hd (editableItems s))))]"
proof -
  obtain item where item: "editableItems s = [item]"
    using assms(1) by (cases "editableItems s") auto
  then have "referenceItems s = [item]"
    using assms(2) by (simp add: referenceItems_def split: if_splits)
  then show ?thesis by (simp add: validReferenceData_def item)
qed

lemma isMatchingAspectRatio_single:
  assumes "length (editableItems s) = 1"
  shows "isMatchingAspectRatio s = matchesAspectRatio (hd (editableItems s)) (aspectRatio s)"
proof -
  obtain item where "editableItems s = [item]"
    using assms by (cases "editableItems s") auto
  then show ?thesis by (simp add: isMatchingAspectRatio_def)
qed

lemma msgLower_noDataError: "msgLower br noDataError = ''selected items have no data.''"
  using lower_char_simps
  by (simp add: noDataError_def msgLower_def cleanMessage_def parsedError_def toLowerCase_def
      is_ascii_def truthy_def lower_char_def)

lemma noDataError_parts: "parsedError noDataError = None" "rawString br noDataError = ''{}''"
  using lower_char_simps
  by (simp_all add: parsedError_def rawString_def toLowerCase_def is_ascii_def noDataError_def)

lemma noDataError_class:
  "\<not> isSafetyBlock br noDataError" "\<not> isClientError br noDataError" "\<not> is503 br noDataError"
  "\<not> is429 br noDataError"
  by (simp_all add: isSafetyBlock_def isClientError_def is503_def is429_def msgLower_noDataError
      noDataError_parts)

lemma onFailure_noDataError:
  "onFailure br noDataError (Suc 0) = RetryAfter 2000 (ErrorRetry 1)"
  "onFailure br noDataError 2 = RetryAfter 2000 (ErrorRetry 2)"
  "onFailure br noDataError 3 = GiveUp GenerationFailed"
  by (simp_all add: onFailure_def noDataError_class maxRetries_def)

lemma no_payload_attempt:
  assumes "editableItems s \<noteq> []" "referenceItems s = []"
  shows "attemptBody sv attempt finalPrompt negativePrompt s = Inl noDataError"
  using assms by (simp add: attemptBody_def editSelected_def validReferenceData_empty)

lemma no_payload_run:
  assumes "editableItems s \<noteq> []" "referenceItems s = []"
    and "promptText \<noteq> []" "\<not> isLoading s" "apiKey s \<noteq> []"
  shows "handleGenerateImage sv br now promptText s
     = \<lparr>outcome = Failed GenerationFailed,
        final = s\<lparr>isLoading := False, loadingMessage := None, errorMessage := Some GenerationFailed\<rparr>,
        slept = [2000, 2000]\<rparr>"
  by (rule always_failing_retries [OF assms(3-5) no_payload_attempt [OF assms(1,2)]])
     (simp_all add: onFailure_noDataError)

text \<open>
  C4 (amended). When at least one selected item has a non-empty payload: a
  single selected item matches the target aspect ratio iff the absolute
  difference between its width/height ratio and the target ratio is below
  0.01; a matching single item takes the single-step edit call, with its mask
  when it has one; a single item that does not match, and a selection of
  several items, take the two-step edit, pad and outpaint path. When items
  are selected and none has a payload, every attempt throws
  \<open>Selected items have no data.\<close> whatever the services would answer, so no
  edit call is made on either path, and a run that starts ends after three
  attempts and two waits of 2000 ms with the notice that the generation
  failed.
\<close>

theorem aspect_ratio_selects_path:
  "(referenceItems s \<noteq> [] \<longrightarrow>
      (length (editableItems s) = 1 \<longrightarrow>
            (isMatchingAspectRatio s =
               (obj_height (hd (editableItems s)) \<noteq> 0
                \<and> \<bar>obj_width (hd (editableItems s)) / obj_height (hd (editableItems s))
                     - target_ratio (aspectRatio s)\<bar> < 0.01))
          \<and> (isMatchingAspectRatio s \<longrightarrow>
                editSelected sv attempt p s
                  = singleStep sv attempt p
                      [optimizeImageForApi sv (the (obj_src (hd (editableItems s))))]
                      (currentModel s)
                      (map_option (optimizeImageForApi sv) (obj_maskSrc (hd (editableItems s))))
                      (aspectRatio s))
          \<and> (\<not> isMatchingAspectRatio s \<longrightarrow>
                editSelected sv attempt p s
                  = twoStep sv attempt p
                      [optimizeImageForApi sv (the (obj_src (hd (editableItems s))))]
                      (currentModel s) (aspectRatio s)))
       \<and> (1 < length (editableItems s) \<longrightarrow>
            editSelected sv attempt p s
              = twoStep sv attempt p (validReferenceData sv s) (currentModel s) (aspectRatio s)))
   \<and> (editableItems s \<noteq> [] \<and> referenceItems s = [] \<longrightarrow>
        editSelected sv attempt p s = Inl noDataError
        \<and> attemptBody sv attempt finalPrompt negativePrompt s = Inl noDataError
        \<and> (promptText \<noteq> [] \<and> \<not> isLoading s \<and> apiKey s \<noteq> [] \<longrightarrow>
             handleGenerateImage sv br now promptText s
               = \<lparr>outcome = Failed GenerationFailed,
                  final = s\<lparr>isLoading := False, loadingMessage := None,
                            errorMessage := Some GenerationFailed\<rparr>,
                  slept = [2000, 2000]\<rparr>))"
proof -
  have one: "isMatchingAspectRatio s =
               (obj_height (hd (editableItems s)) \<noteq> 0
                \<and> \<bar>obj_width (hd (editableItems s)) / obj_height (hd (editableItems s))
                     - target_ratio (aspectRatio s)\<bar> < 0.01)"
    if "length (editableItems s) = 1"
    using isMatchingAspectRatio_single [OF that] by (simp add: matchesAspectRatio_def)
  have single: "editSelected sv attempt p s
                  = singleStep sv attempt p
                      [optimizeImageForApi sv (the (obj_src (hd (editableItems s))))]
                      (currentModel s)
                      (map_option (optimizeImageForApi sv) (obj_maskSrc (hd (editableItems s))))
                      (aspectRatio s)"
    if "referenceItems s \<noteq> []" "length (editableItems s) = 1" "isMatchingAspectRatio s"
    using that single_item_references [OF that(2,1), of sv]
    by (simp add: editSelected_def maskPart_def)
  have two: "editSelected sv attempt p s
                  = twoStep sv attempt p
                      [optimizeImageForApi sv (the (obj_src (hd (editableItems s))))]
                      (currentModel s) (aspectRatio s)"
    if "referenceItems s \<noteq> []" "length (editableItems s) = 1" "\<not> isMatchingAspectRatio s"
    using that single_item_references [OF that(2,1), of sv]
    by (simp add: editSelected_def)
  have many: "editSelected sv attempt p s
              = twoStep sv attempt p (validReferenceData sv s) (currentModel s) (aspectRatio s)"
    if "referenceItems s \<noteq> []" "1 < length (editableItems s)"
    using that by (simp add: editSelected_def validReferenceData_empty)
  have none: "editSelected sv attempt p s = Inl noDataError" if "referenceItems s = []"
    using that by (simp add: editSelected_def validReferenceData_empty)
  show ?thesis
    using one single two many none no_payload_attempt [of s sv attempt finalPrompt negativePrompt]
      no_payload_run [of s promptText sv br now]
    by blast
qed

lemma one_selected_items:
  "editableItems (one_selected\<lparr>aspectRatio := ar\<rparr>)
     = [ImageObj ((image_at ''img_1'' 50)\<lparr>maskSrc := Some ''data:image/png;base64,TUFTSw==''\<rparr>)]"
  by (simp add: editableItems_def one_selected_def image_at_def initial_state_def)

lemma one_selected_references:
  "referenceItems (one_selected\<lparr>aspectRatio := ar\<rparr>)
     = [ImageObj ((image_at ''img_1'' 50)\<lparr>maskSrc := Some ''data:image/png;base64,TUFTSw==''\<rparr>)]"
  by (simp add: referenceItems_def one_selected_items) (simp add: image_at_def truthy_def)

lemma one_selected_model:
  "currentModel (one_selected\<lparr>aspectRatio := ar\<rparr>) = ''gemini-2.5-flash-image''"
  by (simp add: currentModel_def one_selected_items) (simp add: one_selected_def initial_state_def)

lemma one_selected_facts:
  "obj_width (hd (editableItems (one_selected\<lparr>aspectRatio := ar\<rparr>))) = 900"
  "obj_height (hd (editableItems (one_selected\<lparr>aspectRatio := ar\<rparr>))) = 1600"
  "obj_src (hd (editableItems (one_selected\<lparr>aspectRatio := ar\<rparr>))) = Some ''data:image/png;base64,AAAA''"
  "obj_maskSrc (hd (editableItems (one_selected\<lparr>aspectRatio := ar\<rparr>))) = Some ''data:image/png;base64,TUFTSw==''"
  "aspectRatio (one_selected\<lparr>aspectRatio := ar\<rparr>) = ar"
  by (simp_all add: one_selected_items) (simp_all add: image_at_def keep_truthy_def truthy_def)

lemma answering_optimize:
  "optimizeImageForApi answering ''data:image/png;base64,AAAA'' = \<lparr>mimeType = ''image/png'', base64Data = ''AAAA''\<rparr>"
  "optimizeImageForApi answering ''data:image/png;base64,TUFTSw=='' = \<lparr>mimeType = ''image/png'', base64Data = ''TUFTSw==''\<rparr>"
  by (simp_all add: answering_def)

lemma blank_canvas_items:
  "editableItems blank_canvas_selected
     = [CanvasObj \<lparr>can_id = ''canvas_7'', can_x = 0, can_y = 0, can_width = 1024,
                    can_height = 1820, drawingSrc = Some []\<rparr>]"
  by (simp add: editableItems_def blank_canvas_selected_def initial_state_def)

lemma blank_canvas_guard:
  "editableItems blank_canvas_selected \<noteq> []" "referenceItems blank_canvas_selected = []"
  "\<not> isLoading blank_canvas_selected" "apiKey blank_canvas_selected \<noteq> []"
  by (simp_all add: referenceItems_def blank_canvas_items truthy_def)
     (simp_all add: blank_canvas_selected_def initial_state_def)

theorem aspect_ratio_selects_path_witness:
  "referenceItems (one_selected\<lparr>aspectRatio := AR_9_16\<rparr>) \<noteq> []
   \<and> length (editableItems (one_selected\<lparr>aspectRatio := AR_9_16\<rparr>)) = 1
   \<and> isMatchingAspectRatio (one_selected\<lparr>aspectRatio := AR_9_16\<rparr>)
   \<and> editSelected answering 1 ''add a hat'' (one_selected\<lparr>aspectRatio := AR_9_16\<rparr>)
       = singleStep answering 1 ''add a hat'' [\<lparr>mimeType = ''image/png'', base64Data = ''AAAA''\<rparr>]
           ''gemini-2.5-flash-image'' (Some \<lparr>mimeType = ''image/png'', base64Data = ''TUFTSw==''\<rparr>)
           AR_9_16
   \<and> \<not> isMatchingAspectRatio (one_selected\<lparr>aspectRatio := AR_1_1\<rparr>)
   \<and> editSelected answering 1 ''add a hat'' (one_selected\<lparr>aspectRatio := AR_1_1\<rparr>)
       = twoStep answering 1 ''add a hat'' [\<lparr>mimeType = ''image/png'', base64Data = ''AAAA''\<rparr>]
           ''gemini-2.5-flash-image'' AR_1_1
   \<and> 1 < length (editableItems three_selected)
   \<and> editSelected answering 1 ''add a hat'' three_selected
       = twoStep answering 1 ''add a hat'' (validReferenceData answering three_selected)
           (currentModel three_selected) (aspectRatio three_selected)
   \<and> editableItems blank_canvas_selected \<noteq> []
   \<and> referenceItems blank_canvas_selected = []
   \<and> attemptBody answering 1 ''add a hat'' None blank_canvas_selected = Inl noDataError
   \<and> handleGenerateImage answering demo_browser 41 ''add a hat'' blank_canvas_selected
       = \<lparr>outcome = Failed GenerationFailed,
          final = blank_canvas_selected\<lparr>isLoading := False, loadingMessage := None,
                                        errorMessage := Some GenerationFailed\<rparr>,
          slept = [2000, 2000]\<rparr>"
proof -
  have r: "referenceItems (one_selected\<lparr>aspectRatio := ar\<rparr>) \<noteq> []" for ar
    by (simp add: one_selected_references)
  have l: "length (editableItems (one_selected\<lparr>aspectRatio := ar\<rparr>)) = 1" for ar
    by (simp add: one_selected_items)
  note m = aspect_ratio_selects_path [of "one_selected\<lparr>aspectRatio := AR_9_16\<rparr>" answering 1 "''add a hat''"]
  note n = aspect_ratio_selects_path [of "one_selected\<lparr>aspectRatio := AR_1_1\<rparr>" answering 1 "''add a hat''"]
  have r3: "referenceItems three_selected \<noteq> []"
    by (simp add: referenceItems_def three_selected_items) (simp add: image_at_def truthy_def)
  have l3: "1 < length (editableItems three_selected)"
    by (simp add: three_selected_items)
  note k = aspect_ratio_selects_path [of three_selected answering 1 "''add a hat''"]
  note b = aspect_ratio_selects_path
             [of blank_canvas_selected answering 1 "''add a hat''" "''add a hat''" None "''add a hat''"
                 demo_browser 41]
  have m1: "isMatchingAspectRatio (one_selected\<lparr>aspectRatio := AR_9_16\<rparr>)"
    using m r [of AR_9_16] l [of AR_9_16] by (simp add: one_selected_facts target_ratio_def)
  have n1: "\<not> isMatchingAspectRatio (one_selected\<lparr>aspectRatio := AR_1_1\<rparr>)"
    using n r [of AR_1_1] l [of AR_1_1] by (simp add: one_selected_facts target_ratio_def)
  have m2: "editSelected answering 1 ''add a hat'' (one_selected\<lparr>aspectRatio := AR_9_16\<rparr>)
       = singleStep answering 1 ''add a hat'' [\<lparr>mimeType = ''image/png'', base64Data = ''AAAA''\<rparr>]
           ''gemini-2.5-flash-image'' (Some \<lparr>mimeType = ''image/png'', base64Data = ''TUFTSw==''\<rparr>)
           AR_9_16"
    using m r [of AR_9_16] l [of AR_9_16] m1
    by (simp add: one_selected_facts one_selected_model answering_optimize)
  have n2: "editSelected answering 1 ''add a hat'' (one_selected\<lparr>aspectRatio := AR_1_1\<rparr>)
       = twoStep answering 1 ''add a hat'' [\<lparr>mimeType = ''image/png'', base64Data = ''AAAA''\<rparr>]
           ''gemini-2.5-flash-image'' AR_1_1"
    using n r [of AR_1_1] l [of AR_1_1] n1
    by (simp add: one_selected_facts one_selected_model answering_optimize)
  have k2: "editSelected answering 1 ''add a hat'' three_selected
       = twoStep answering 1 ''add a hat'' (validReferenceData answering three_selected)
           (currentModel three_selected) (aspectRatio three_selected)"
    using k r3 l3 by simp
  have b1: "attemptBody answering 1 ''add a hat'' None blank_canvas_selected = Inl noDataError"
    using b blank_canvas_guard by simp
  have b2: "handleGenerateImage answering demo_browser 41 ''add a hat'' blank_canvas_selected
       = \<lparr>outcome = Failed GenerationFailed,
          final = blank_canvas_selected\<lparr>isLoading := False, loadingMessage := None,
                                        errorMessage := Some GenerationFailed\<rparr>,
          slept = [2000, 2000]\<rparr>"
    using b blank_canvas_guard by simp
  show ?thesis
    using r [of AR_9_16] l [of AR_9_16] m1 m2 n1 n2 l3 k2 b1 b2 blank_canvas_guard by simp
qed

lemma blank_canvas_run:
  "handleGenerateImage answering demo_browser 41 ''add a hat'' blank_canvas_selected
     = \<lparr>outcome = Failed GenerationFailed,
        final = blank_canvas_selected\<lparr>isLoading := False, loadingMessage := None,
                                      errorMessage := Some GenerationFailed\<rparr>,
        slept = [2000, 2000]\<rparr>"
  by (rule no_payload_run) (simp_all add: blank_canvas_guard)

text \<open>
  C4 as stated fails for a single matching item without a payload: a drawing
  canvas that has not been painted yet matches 9:16, but no edit call is made;
  the attempt throws, and the run fails after its three attempts although the
  service would answer every call.
\<close>

theorem aspect_ratio_selects_path_counterexample:
  "length (editableItems blank_canvas_selected) = 1
   \<and> isMatchingAspectRatio blank_canvas_selected
   \<and> editSelected answering 1 ''add a hat'' blank_canvas_selected = Inl noDataError
   \<and> singleStep answering 1 ''add a hat'' (validReferenceData answering blank_canvas_selected)
        (currentModel blank_canvas_selected) (maskPart answering blank_canvas_selected)
        (aspectRatio blank_canvas_selected)
       = Inr (pngDataUrl ''RURJVA=='')
   \<and> outcome (handleGenerateImage answering demo_browser 41 ''add a hat'' blank_canvas_selected)
       = Failed GenerationFailed
   \<and> slept (handleGenerateImage answering demo_browser 41 ''add a hat'' blank_canvas_selected)
       = [2000, 2000]"
proof -
  have "isMatchingAspectRatio blank_canvas_selected"
    by (simp add: isMatchingAspectRatio_def blank_canvas_items matchesAspectRatio_def)
       (simp add: blank_canvas_selected_def initial_state_def target_ratio_def)
  moreover have "referenceItems blank_canvas_selected = []"
    by (rule blank_canvas_guard)
  moreover have "outcome (handleGenerateImage answering demo_browser 41 ''add a hat''
                            blank_canvas_selected) = Failed GenerationFailed"
    "slept (handleGenerateImage answering demo_browser 41 ''add a hat'' blank_canvas_selected)
       = [2000, 2000]"
    by (simp_all add: blank_canvas_run)
  ultimately show ?thesis
    by (simp add: editSelected_def validReferenceData_def blank_canvas_items
        singleStep_def answering_def)
qed

section \<open>Failed generations and failed loads\<close>

lemma document_without_status: "document (without_status s) = document s"
  by (simp add: document_def without_status_def)

lemma without_status_updates:
  "without_status (s\<lparr>loadingMessage := lm\<rparr>) = without_status s"
  "without_status (s\<lparr>errorMessage := em\<rparr>) = without_status s"
  "without_status (s\<lparr>isLoading := il\<rparr>) = without_status s"
  by (simp_all add: without_status_def)

lemma attemptsLoop_returned:
  assumes "attemptBody sv attempt (fst fp) (snd fp) s0 = Inr g"
  shows "attemptsLoop sv br now promptText fp s0 (attempt # rest) ended st
           = \<lparr>outcome = Generated (fst g), final = onSuccess br now promptText s0 g st, slept = []\<rparr>"
  using assms by simp

lemma attemptsLoop_not_generated:
  assumes "\<And>p. ended \<noteq> Generated p"
    and "\<And>p. outcome (attemptsLoop sv br now promptText fp s0 attempts ended st) \<noteq> Generated p"
  shows "without_status (final (attemptsLoop sv br now promptText fp s0 attempts ended st))
           = without_status st"
  using assms
proof (induction attempts arbitrary: ended st)
  case Nil
  then show ?case by simp
next
  case (Cons attempt rest)
  show ?case
  proof (cases "attemptBody sv attempt (fst fp) (snd fp) s0")
    case (Inr g)
    then show ?thesis
      using Cons.prems(2) [of "fst g"] by (simp add: attemptsLoop_returned del: attemptsLoop.simps)
  next
    case (Inl e)
    note loop = attemptsLoop_thrown [OF Inl, of br now promptText rest ended st]
    show ?thesis
    proof (cases "onFailure br e attempt")
      case (Stop n)
      then show ?thesis by (simp add: loop without_status_updates del: attemptsLoop.simps)
    next
      case (RetryAfter delay message)
      let ?r = "attemptsLoop sv br now promptText fp s0 rest ended (st\<lparr>loadingMessage := Some message\<rparr>)"
      have eq: "attemptsLoop sv br now promptText fp s0 (attempt # rest) ended st
                  = ?r\<lparr>slept := delay # slept ?r\<rparr>"
        by (simp add: loop RetryAfter Let_def del: attemptsLoop.simps)
      have "\<And>p. outcome ?r \<noteq> Generated p"
        using Cons.prems(2) by (simp add: eq del: attemptsLoop.simps)
      then have "without_status (final ?r) = without_status (st\<lparr>loadingMessage := Some message\<rparr>)"
        using Cons.IH [of ended] Cons.prems(1) by blast
      then show ?thesis by (simp add: eq without_status_updates del: attemptsLoop.simps)
    next
      case (GiveUp n)
      let ?st = "st\<lparr>errorMessage := Some n, isLoading := False, loadingMessage := None\<rparr>"
      let ?r = "attemptsLoop sv br now promptText fp s0 rest (Failed n) ?st"
      have eq: "attemptsLoop sv br now promptText fp s0 (attempt # rest) ended st = ?r"
        by (simp add: loop GiveUp del: attemptsLoop.simps)
      have "\<And>p. outcome ?r \<noteq> Generated p"
        using Cons.prems(2) by (simp add: eq del: attemptsLoop.simps)
      then have "without_status (final ?r) = without_status ?st"
        using Cons.IH [of "Failed n"] by blast
      then show ?thesis by (simp add: eq without_status_updates del: attemptsLoop.simps)
    qed
  qed
qed

lemma attemptsLoop_failed_notice:
  assumes "\<And>n. ended = Failed n \<Longrightarrow> errorMessage st = Some n"
    and "outcome (attemptsLoop sv br now promptText fp s0 attempts ended st) = Failed n"
  shows "errorMessage (final (attemptsLoop sv br now promptText fp s0 attempts ended st)) = Some n"
  using assms
proof (induction attempts arbitrary: ended st)
  case Nil
  then show ?case by simp
next
  case (Cons attempt rest)
  show ?case
  proof (cases "attemptBody sv attempt (fst fp) (snd fp) s0")
    case (Inr g)
    then show ?thesis
      using Cons.prems(2) by (simp add: attemptsLoop_returned del: attemptsLoop.simps)
  next
    case (Inl e)
    note loop = attemptsLoop_thrown [OF Inl, of br now promptText rest ended st]
    show ?thesis
    proof (cases "onFailure br e attempt")
      case (Stop m)
      then show ?thesis using Cons.prems(2) by (simp add: loop del: attemptsLoop.simps)
    next
      case (RetryAfter delay message)
      let ?r = "attemptsLoop sv br now promptText fp s0 rest ended (st\<lparr>loadingMessage := Some message\<rparr>)"
      have eq: "attemptsLoop sv br now promptText fp s0 (attempt # rest) ended st
                  = ?r\<lparr>slept := delay # slept ?r\<rparr>"
        by (simp add: loop RetryAfter Let_def del: attemptsLoop.simps)
      have "outcome ?r = Failed n"
        using Cons.prems(2) by (simp add: eq del: attemptsLoop.simps)
      moreover have "\<And>k. ended = Failed k \<Longrightarrow> errorMessage (st\<lparr>loadingMessage := Some message\<rparr>) = Some k"
        using Cons.prems(1) by simp
      ultimately have "errorMessage (final ?r) = Some n"
        using Cons.IH [of ended "st\<lparr>loadingMessage := Some message\<rparr>"] by blast
      then show ?thesis by (simp add: eq del: attemptsLoop.simps)
    next
      case (GiveUp m)
      let ?st = "st\<lparr>errorMessage := Some m, isLoading := False, loadingMessage := None\<rparr>"
      let ?r = "attemptsLoop sv br now promptText fp s0 rest (Failed m) ?st"
      have eq: "attemptsLoop sv br now promptText fp s0 (attempt # rest) ended st = ?r"
        by (simp add: loop GiveUp del: attemptsLoop.simps)
      have "outcome ?r = Failed n"
        using Cons.prems(2) by (simp add: eq del: attemptsLoop.simps)
      moreover have "\<And>k. Failed m = Failed k \<Longrightarrow> errorMessage ?st = Some k"
        by simp
      ultimately have "errorMessage (final ?r) = Some n"
        using Cons.IH [of "Failed m" ?st] by blast
      then show ?thesis by (simp add: eq del: attemptsLoop.simps)
    qed
  qed
qed

section \<open>Saving and loading a video\<close>

text \<open>
  A source without a comma, as every object URL is, has no payload for
  \<open>parseDataUrl\<close>, and \<open>addAsset\<close> writes an empty entry for it.
\<close>

lemma splitOn_without_separator: "sep \<notin> set u \<Longrightarrow> splitOn sep u = [u]"
  by (induction u) auto

lemma parseDataUrl_without_comma:
  assumes "CHR '','' \<notin> set u"
  shows "parseDataUrl u = \<lparr>mimeType = ''image/png'', base64Data = []\<rparr>"
  using assms by (simp add: parseDataUrl_def splitOn_without_separator)

lemma addAsset_without_comma:
  assumes "CHR '','' \<notin> set u"
  shows "folder (snd (addAsset stamps u pre w)) (fst (addAsset stamps u pre w)) = Some []"
  using assms by (simp add: addAsset_def parseDataUrl_without_comma Let_def)

lemma parseDataUrl_demo:
  "parseDataUrl ''data:image/png;base64,AAAA'' = \<lparr>mimeType = ''image/png'', base64Data = ''AAAA''\<rparr>"
  "parseDataUrl ''blob:http://localhost:3000/8f1c'' = \<lparr>mimeType = ''image/png'', base64Data = []\<rparr>"
  "parseDataUrl ''data:application/octet-stream;base64,AAAA''
     = \<lparr>mimeType = ''image/png'', base64Data = ''AAAA''\<rparr>"
  "parseDataUrl ''data:application/octet-stream;base64,''
     = \<lparr>mimeType = ''image/png'', base64Data = []\<rparr>"
  by (simp_all add: parseDataUrl_def Let_def)

lemma extension_png: "extension ''image/png'' = ''png''"
  by (simp add: extension_def Let_def)

lemma video_document_saved:
  "handleSaveProject demo_stamps video_document
     = \<lparr>file_name = ''Untitled Story.story'',
        file_zip = Some
          \<lparr>project_json = Some
             \<lparr>pd_projectName = Some ''Untitled Story'',
              pd_images = Some [(image_at ''vid_7'' 50)\<lparr>classification := Video,
                                  src := ''assets/img_41_r4nd0m.png'',
                                  videoSrc := Some ''assets/vid_42_r4nd0m.png''\<rparr>],
              pd_textObjects = Some [],
              pd_drawingCanvases = Some [],
              pd_layerOrder = Some [''vid_7''],
              pd_aspectRatio = Some AR_9_16,
              pd_transform = Some \<lparr>t_x = 0, t_y = 0, t_scale = 0.2\<rparr>\<rparr>,
           assets = [''assets/img_41_r4nd0m.png'' \<mapsto> ''AAAA'',
                     ''assets/vid_42_r4nd0m.png'' \<mapsto> []]\<rparr>\<rparr>"
  by (simp add: handleSaveProject_def video_document_def initial_state_def image_at_def
      saveImage_def addAsset_def addOptional_def truthy_def demo_stamps_def demo_ids
      parseDataUrl_demo extension_png Let_def)

text \<open>
  C2 fails on the code for a video: \<open>generateVideo\<close>
  (src/services/geminiService.ts, line 335) returns the object URL of the
  downloaded video, \<open>handleAddVideoToCanvas\<close> stores it as \<open>videoSrc\<close>, and
  \<open>parseDataUrl\<close> finds no comma in it. Saving writes an empty \<open>vid\<close> entry, and
  loading the saved file gives a \<open>videoSrc\<close> with no bytes, while the image
  payload of the same object comes back.
\<close>

theorem video_lost_in_round_trip:
  "map videoSrc (images video_document) = [Some ''blob:http://localhost:3000/8f1c'']
   \<and> snd (loadProjectFromFile (handleSaveProject demo_stamps video_document) (initial_state ''key''))
       = None
   \<and> map videoSrc
         (images (fst (loadProjectFromFile (handleSaveProject demo_stamps video_document)
                         (initial_state ''key''))))
       = [Some ''data:application/octet-stream;base64,'']
   \<and> map (\<lambda>img. base64Data (parseDataUrl (src img)))
         (images (fst (loadProjectFromFile (handleSaveProject demo_stamps video_document)
                         (initial_state ''key''))))
       = map (\<lambda>img. base64Data (parseDataUrl (src img))) (images video_document)"
proof -
  have "map videoSrc (images video_document) = [Some ''blob:http://localhost:3000/8f1c'']"
    by (simp add: video_document_def image_at_def)
  moreover have "map (\<lambda>img. base64Data (parseDataUrl (src img))) (images video_document) = [''AAAA'']"
    by (simp add: video_document_def image_at_def parseDataUrl_demo)
  moreover have "loadProjectFromFile (handleSaveProject demo_stamps video_document) (initial_state ''key'')
    = ((initial_state ''key'')\<lparr>
         images := [(image_at ''vid_7'' 50)\<lparr>classification := Video,
                      src := ''data:application/octet-stream;base64,AAAA'',
                      videoSrc := Some ''data:application/octet-stream;base64,''\<rparr>],
         layerOrder := [''vid_7'']\<rparr>, None)"
    by (simp add: video_document_saved loadProjectFromFile_def restoreImage_def loadOptional_def
        loadAsset_def truthy_def image_at_def initial_state_def)
  ultimately show ?thesis
    by (simp add: parseDataUrl_demo)
qed

lemma load_without_project_json:
  assumes "file_zip file = Some z" "project_json z = None"
  shows "loadProjectFromFile file s = (s, Some ''Failed to load project.'')"
  using assms by (simp add: loadProjectFromFile_def)

lemma handleGenerateImage_cases:
  "handleGenerateImage sv br now promptText s = \<lparr>outcome = NotStarted, final = s, slept = []\<rparr>
   \<or> handleGenerateImage sv br now promptText s
       = \<lparr>outcome = KeyRequested, final = s\<lparr>isApiKeyModalOpen := True\<rparr>, slept = []\<rparr>
   \<or> handleGenerateImage sv br now promptText s
       = attemptsLoop sv br now promptText (resolvePrompt sv promptText (activeModel s)) s
           [1..<maxRetries + 1] NotStarted
           (s\<lparr>isLoading := True, loadingMessage := None, errorMessage := None\<rparr>)"
  by (simp add: handleGenerateImage_def)

lemma failed_generation_keeps_document:
  assumes "\<And>p. outcome (handleGenerateImage sv br now promptText s) \<noteq> Generated p"
  shows "document (final (handleGenerateImage sv br now promptText s)) = document s"
proof -
  let ?st = "s\<lparr>isLoading := True, loadingMessage := None, errorMessage := None\<rparr>"
  let ?loop = "attemptsLoop sv br now promptText (resolvePrompt sv promptText (activeModel s)) s
                 [1..<maxRetries + 1] NotStarted ?st"
  from handleGenerateImage_cases [of sv br now promptText s]
  consider "final (handleGenerateImage sv br now promptText s) = s"
    | "final (handleGenerateImage sv br now promptText s) = s\<lparr>isApiKeyModalOpen := True\<rparr>"
    | "handleGenerateImage sv br now promptText s = ?loop"
    by fastforce
  then show ?thesis
  proof cases
    case 1
    then show ?thesis by simp
  next
    case 2
    then show ?thesis by (simp add: document_def)
  next
    case 3
    have "\<And>p. outcome ?loop \<noteq> Generated p"
      using assms 3 by simp
    then have "without_status (final ?loop) = without_status ?st"
      by (intro attemptsLoop_not_generated) simp_all
    then have "document (without_status (final ?loop)) = document (without_status ?st)"
      by simp
    then have "document (final ?loop) = document ?st"
      by (simp only: document_without_status)
    then show ?thesis
      using 3 by (simp add: document_def)
  qed
qed

lemma failed_generation_sets_notice:
  assumes "outcome (handleGenerateImage sv br now promptText s) = Failed n"
  shows "errorMessage (final (handleGenerateImage sv br now promptText s)) = Some n"
proof -
  let ?st = "s\<lparr>isLoading := True, loadingMessage := None, errorMessage := None\<rparr>"
  let ?loop = "attemptsLoop sv br now promptText (resolvePrompt sv promptText (activeModel s)) s
                 [1..<maxRetries + 1] NotStarted ?st"
  from handleGenerateImage_cases [of sv br now promptText s] assms
  have run: "handleGenerateImage sv br now promptText s = ?loop"
    by auto
  then have "outcome ?loop = Failed n"
    using assms by simp
  then have "errorMessage (final ?loop) = Some n"
    by (intro attemptsLoop_failed_notice) simp_all
  then show ?thesis using run by simp
qed

text \<open>
  C9. A run of \<open>handleGenerateImage\<close> that does not produce an image (it does
  not start, it asks for a key, or it fails, by a terminal error or after the
  last attempt) leaves the images, the text objects, the drawing canvases, the
  layer order, the aspect ratio, the transform and the project name as they
  were, so an object is added only by a run that produced an image; a failed
  run shows its notice. Loading an archive that has no \<open>project.json\<close> entry
  leaves the whole state as it was and alerts that the load failed.
\<close>

theorem failures_leave_document_unchanged:
  "((\<forall>p. outcome (handleGenerateImage sv br now promptText s) \<noteq> Generated p) \<longrightarrow>
      document (final (handleGenerateImage sv br now promptText s)) = document s)
   \<and> (outcome (handleGenerateImage sv br now promptText s) = Failed n \<longrightarrow>
        errorMessage (final (handleGenerateImage sv br now promptText s)) = Some n)
   \<and> (file_zip pf = Some z \<and> project_json z = None \<longrightarrow>
        loadProjectFromFile pf s = (s, Some ''Failed to load project.''))"
  using failed_generation_keeps_document [of sv br now promptText s]
    failed_generation_sets_notice [of sv br now promptText s n]
    load_without_project_json [of pf z s]
  by blast

section \<open>Paint masks\<close>

lemma no_editable_items:
  assumes "editableItems s = []" "img \<in> set (images s)"
  shows "img_id img \<notin> set (selectedImageIds s)"
proof -
  have "length (editableItems s) = 0" using assms(1) by simp
  then have "filter (\<lambda>img. img_id img \<in> set (selectedImageIds s)) (images s) = []"
    by (simp add: editableItems_def Let_def)
  then show ?thesis using assms(2) by (simp add: filter_empty_conv)
qed

lemma attemptBody_path:
  assumes "attemptBody sv attempt fp np s = Inr g"
  shows "fst g = EditPath \<or> editableItems s = []"
  using assms by (auto simp: attemptBody_def split: if_splits sum.splits)

lemma clearSelectedMasks_cleared:
  assumes "img \<in> set (clearSelectedMasks ids imgs)" "img_id img \<in> set ids"
  shows "maskSrc img = None"
  using assms by (auto simp: clearSelectedMasks_def split: if_splits)

lemma images_appended_image: "images (appended_image img s) = images s @ [img]"
  by (simp add: appended_image_def)

lemma onSuccess_images:
  "images (onSuccess br now promptText s0 g st)
     = (if fst g = EditPath then clearSelectedMasks (selectedImageIds s0) (images st) else images st)
   \<or> (\<exists>img. maskSrc img = None
         \<and> images (onSuccess br now promptText s0 g st)
             = (if fst g = EditPath then clearSelectedMasks (selectedImageIds s0) (images st)
                else images st) @ [img])"
proof -
  define st2 where "st2 =
     (if fst g = EditPath
      then st\<lparr>images := clearSelectedMasks (selectedImageIds s0) (images st),
             selectedImageIds := [], selectedDrawingCanvasIds := []\<rparr>
      else st)\<lparr>isLoading := False, loadingMessage := None, activeTool := Select\<rparr>"
  define opts where "opts = no_options\<lparr>opt_prompt := Some promptText,
                        opt_targetAspectRatio := Some (aspectRatio s0)\<rparr>"
  have run: "onSuccess br now promptText s0 g st = addImageToCanvas br now (snd g) Result opts st2"
    by (simp add: onSuccess_def st2_def opts_def Let_def)
  have imgs: "images st2
     = (if fst g = EditPath then clearSelectedMasks (selectedImageIds s0) (images st) else images st)"
    by (simp add: st2_def)
  from addImageToCanvas_cases [of br now "snd g" Result opts st2] show ?thesis
  proof
    assume "addImageToCanvas br now (snd g) Result opts st2 = st2"
    then show ?thesis using run imgs by simp
  next
    assume "\<exists>img. img_id img = (if truthy (opt_id opts) then the (opt_id opts)
                                 else ''img_'' @ string_of_nat now)
              \<and> maskSrc img = None
              \<and> addImageToCanvas br now (snd g) Result opts st2 = appended_image img st2"
    then obtain img where "maskSrc img = None"
      and "addImageToCanvas br now (snd g) Result opts st2 = appended_image img st2"
      by blast
    then show ?thesis using run imgs by (auto simp: images_appended_image)
  qed
qed

lemma onSuccess_masks:
  assumes same: "images st = images s0"
    and body: "attemptBody sv attempt fp np s0 = Inr g"
    and mem: "img \<in> set (images (onSuccess br now promptText s0 g st))"
    and sel: "img_id img \<in> set (selectedImageIds s0)"
  shows "maskSrc img = None"
proof -
  let ?base = "if fst g = EditPath then clearSelectedMasks (selectedImageIds s0) (images st)
               else images st"
  have base: "maskSrc i = None" if "i \<in> set ?base" "img_id i \<in> set (selectedImageIds s0)" for i
  proof (cases "fst g = EditPath")
    case True
    then show ?thesis using that clearSelectedMasks_cleared by simp
  next
    case False
    then have "editableItems s0 = []" using attemptBody_path [OF body] by simp
    then show ?thesis using that False same no_editable_items [of s0 i] by simp
  qed
  from onSuccess_images [of br now promptText s0 g st] show ?thesis
  proof
    assume "images (onSuccess br now promptText s0 g st) = ?base"
    then show ?thesis using base mem sel by simp
  next
    assume "\<exists>new. maskSrc new = None \<and> images (onSuccess br now promptText s0 g st) = ?base @ [new]"
    then obtain new where "maskSrc new = None"
      and "images (onSuccess br now promptText s0 g st) = ?base @ [new]"
      by blast
    then show ?thesis using base mem sel by auto
  qed
qed

lemma attemptsLoop_generated_masks:
  assumes "images st = images s0"
    and "\<And>p. ended \<noteq> Generated p"
    and "outcome (attemptsLoop sv br now promptText fp s0 attempts ended st) = Generated p"
    and "img \<in> set (images (final (attemptsLoop sv br now promptText fp s0 attempts ended st)))"
    and "img_id img \<in> set (selectedImageIds s0)"
  shows "maskSrc img = None"
  using assms
proof (induction attempts arbitrary: ended st)
  case Nil
  then show ?case by simp
next
  case (Cons attempt rest)
  show ?case
  proof (cases "attemptBody sv attempt (fst fp) (snd fp) s0")
    case (Inr g)
    have "img \<in> set (images (onSuccess br now promptText s0 g st))"
      using Cons.prems(4) Inr by (simp add: attemptsLoop_returned del: attemptsLoop.simps)
    then show ?thesis
      using onSuccess_masks [OF Cons.prems(1) Inr] Cons.prems(5) by blast
  next
    case (Inl e)
    note loop = attemptsLoop_thrown [OF Inl, of br now promptText rest ended st]
    show ?thesis
    proof (cases "onFailure br e attempt")
      case (Stop n)
      then show ?thesis using Cons.prems(3) by (simp add: loop del: attemptsLoop.simps)
    next
      case (RetryAfter delay message)
      let ?st = "st\<lparr>loadingMessage := Some message\<rparr>"
      let ?r = "attemptsLoop sv br now promptText fp s0 rest ended ?st"
      have eq: "attemptsLoop sv br now promptText fp s0 (attempt # rest) ended st
                  = ?r\<lparr>slept := delay # slept ?r\<rparr>"
        by (simp add: loop RetryAfter Let_def del: attemptsLoop.simps)
      have "outcome ?r = Generated p" "img \<in> set (images (final ?r))"
        using Cons.prems(3,4) by (simp_all add: eq del: attemptsLoop.simps)
      moreover have "images ?st = images s0" using Cons.prems(1) by simp
      ultimately show ?thesis
        using Cons.IH [of ?st ended] Cons.prems(2,5) by blast
    next
      case (GiveUp n)
      let ?st = "st\<lparr>errorMessage := Some n, isLoading := False, loadingMessage := None\<rparr>"
      let ?r = "attemptsLoop sv br now promptText fp s0 rest (Failed n) ?st"
      have eq: "attemptsLoop sv br now promptText fp s0 (attempt # rest) ended st = ?r"
        by (simp add: loop GiveUp del: attemptsLoop.simps)
      have "outcome ?r = Generated p" "img \<in> set (images (final ?r))"
        using Cons.prems(3,4) by (simp_all add: eq del: attemptsLoop.simps)
      moreover have "images ?st = images s0" using Cons.prems(1) by simp
      ultimately show ?thesis
        using Cons.IH [of ?st "Failed n"] Cons.prems(5) by blast
    qed
  qed
qed

lemma generated_masks_cleared:
  assumes "outcome (handleGenerateImage sv br now promptText s) = Generated p"
    and "img \<in> set (images (final (handleGenerateImage sv br now promptText s)))"
    and "img_id img \<in> set (selectedImageIds s)"
  shows "maskSrc img = None"
proof -
  let ?st = "s\<lparr>isLoading := True, loadingMessage := None, errorMessage := None\<rparr>"
  let ?loop = "attemptsLoop sv br now promptText (resolvePrompt sv promptText (activeModel s)) s
                 [1..<maxRetries + 1] NotStarted ?st"
  from handleGenerateImage_cases [of sv br now promptText s] assms(1)
  have run: "handleGenerateImage sv br now promptText s = ?loop"
    by auto
  have "images ?st = images s" by simp
  moreover have "\<And>q. NotStarted \<noteq> Generated q" by simp
  moreover have "outcome ?loop = Generated p" "img \<in> set (images (final ?loop))"
    using assms(1,2) run by simp_all
  ultimately show ?thesis
    using assms(3) by (rule attemptsLoop_generated_masks)
qed

lemma background_click_masks:
  assumes "img \<in> set (images (onBackgroundClick s))" "img_id img \<in> set (selectedImageIds s)"
  shows "\<not> truthy (maskSrc img)"
proof -
  have ne: "selectedImageIds s \<noteq> []" using assms(2) by auto
  have "images (onBackgroundClick s)
          = map (\<lambda>img. if img_id img \<in> set (selectedImageIds s) \<and> truthy (maskSrc img)
                        then img\<lparr>maskSrc := None\<rparr> else img) (images s)"
    using ne by (simp add: onBackgroundClick_def Let_def)
  then show ?thesis
    using assms by (auto simp: truthy_def split: if_splits)
qed

lemma background_click_selection:
  "selectedImageIds (onBackgroundClick s) = []"
  "selectedTextIds (onBackgroundClick s) = []"
  "selectedDrawingCanvasIds (onBackgroundClick s) = []"
  by (simp_all add: onBackgroundClick_def Let_def)

lemma failed_generation_keeps_images:
  assumes "\<And>p. outcome (handleGenerateImage sv br now promptText s) \<noteq> Generated p"
  shows "images (final (handleGenerateImage sv br now promptText s)) = images s"
  using failed_generation_keeps_document [OF assms] by (simp add: document_def)

lemma handleNodeSelect_images: "images (handleNodeSelect shiftKey i ty s) = images s"
  by (cases ty) (simp_all add: handleNodeSelect_def Let_def)

text \<open>
  C8 (amended). After a run of \<open>handleGenerateImage\<close> that produced an image,
  no image that was selected when the run started has a mask; and a click on
  the background empties the three selections and leaves no previously
  selected image with a usable mask. A run that did not produce an image
  leaves every image, and so every mask, as it was; and selecting a node,
  which may deselect other images, leaves every image as it was.
\<close>

theorem masks_cleared_on_success_and_background_click:
  "(outcome (handleGenerateImage sv br now promptText s) = Generated p \<longrightarrow>
      (\<forall>img \<in> set (images (final (handleGenerateImage sv br now promptText s))).
         img_id img \<in> set (selectedImageIds s) \<longrightarrow> maskSrc img = None))
   \<and> (\<forall>img \<in> set (images (onBackgroundClick s)).
         img_id img \<in> set (selectedImageIds s) \<longrightarrow> \<not> truthy (maskSrc img))
   \<and> selectedImageIds (onBackgroundClick s) = []
   \<and> selectedTextIds (onBackgroundClick s) = []
   \<and> selectedDrawingCanvasIds (onBackgroundClick s) = []
   \<and> ((\<forall>q. outcome (handleGenerateImage sv br now promptText s) \<noteq> Generated q) \<longrightarrow>
        images (final (handleGenerateImage sv br now promptText s)) = images s)
   \<and> images (handleNodeSelect shiftKey i ty s) = images s"
  using generated_masks_cleared [of sv br now promptText s p] background_click_masks [of _ s]
    background_click_selection [of s] failed_generation_keeps_images [of sv br now promptText s]
    handleNodeSelect_images [of shiftKey i ty s]
  by blast

lemma one_selected_guard:
  "\<not> isLoading one_selected" "apiKey one_selected \<noteq> []"
  "selectedImageIds one_selected = [''img_1'']"
  "images one_selected
     = [(image_at ''img_1'' 50)\<lparr>maskSrc := Some ''data:image/png;base64,TUFTSw==''\<rparr>]"
  "one_selected\<lparr>aspectRatio := AR_9_16\<rparr> = one_selected"
  "selectedTextIds one_selected = []" "selectedDrawingCanvasIds one_selected = []"
  by (simp_all add: one_selected_def initial_state_def)

lemma one_selected_matching: "isMatchingAspectRatio one_selected"
  using one_selected_items [of AR_9_16]
  by (simp add: one_selected_guard isMatchingAspectRatio_def matchesAspectRatio_def image_at_def
      target_ratio_def) (simp add: one_selected_def initial_state_def)

lemma one_selected_valid:
  "validReferenceData sv one_selected = [optimizeImageForApi sv ''data:image/png;base64,AAAA'']"
  using one_selected_references [of AR_9_16]
  by (simp add: one_selected_guard validReferenceData_def image_at_def)

lemma one_selected_attempt_answered:
  "attemptBody answering attempt ''add a hat'' None one_selected
     = Inr (EditPath, pngDataUrl ''RURJVA=='')"
  using one_selected_items [of AR_9_16] one_selected_matching
  by (simp add: one_selected_guard attemptBody_def editSelected_def one_selected_valid
      singleStep_def answering_def)

lemma one_selected_attempt_blocked:
  "attemptBody (failing safetyError) attempt ''add a hat'' None one_selected = Inl safetyError"
  using one_selected_items [of AR_9_16] one_selected_matching
  by (simp add: one_selected_guard attemptBody_def editSelected_def one_selected_valid
      singleStep_def failing_def)

lemma one_selected_generated:
  "handleGenerateImage answering demo_browser 41 ''add a hat'' one_selected
     = \<lparr>outcome = Generated EditPath,
        final = onSuccess demo_browser 41 ''add a hat'' one_selected (EditPath, pngDataUrl ''RURJVA=='')
                  (one_selected\<lparr>isLoading := True, loadingMessage := None, errorMessage := None\<rparr>),
        slept = []\<rparr>"
proof -
  have "resolvePrompt answering ''add a hat'' (activeModel one_selected) = (''add a hat'', None)"
    by (simp add: answering_def)
  then show ?thesis
    by (simp add: handleGenerateImage_started one_selected_guard one_selected_attempt_answered
        attemptsLoop_returned del: attemptsLoop.simps)
qed

lemma one_selected_blocked:
  "handleGenerateImage (failing safetyError) demo_browser 41 ''add a hat'' one_selected
     = \<lparr>outcome = Failed SafetyBlocked,
        final = one_selected\<lparr>isLoading := False, loadingMessage := None,
                              errorMessage := Some SafetyBlocked\<rparr>,
        slept = []\<rparr>"
proof -
  have "resolvePrompt (failing safetyError) ''add a hat'' (activeModel one_selected)
          = (''add a hat'', None)"
    by (simp add: failing_def)
  then show ?thesis
    by (simp add: handleGenerateImage_started one_selected_guard one_selected_attempt_blocked
        attemptsLoop_thrown onFailure_safetyError del: attemptsLoop.simps)
qed

lemma one_selected_generated_ids:
  "map img_id (images (final (handleGenerateImage answering demo_browser 41 ''add a hat'' one_selected)))
     = [''img_1'', ''img_41'']"
  unfolding one_selected_generated
  by (simp add: onSuccess_def addImageToCanvas_def demo_browser_def
      clearSelectedMasks_def one_selected_guard image_at_def no_options_def truthy_def demo_ids
      Let_def)

theorem masks_cleared_on_success_and_background_click_witness:
  "outcome (handleGenerateImage answering demo_browser 41 ''add a hat'' one_selected)
     = Generated EditPath
   \<and> map maskSrc (images one_selected) = [Some ''data:image/png;base64,TUFTSw=='']
   \<and> maskSrc (hd (images (final (handleGenerateImage answering demo_browser 41 ''add a hat''
                                     one_selected)))) = None
   \<and> \<not> truthy (maskSrc (hd (images (onBackgroundClick one_selected))))
   \<and> selectedImageIds (onBackgroundClick one_selected) = []
   \<and> outcome (handleGenerateImage (failing safetyError) demo_browser 41 ''add a hat'' one_selected)
       = Failed SafetyBlocked
   \<and> images (final (handleGenerateImage (failing safetyError) demo_browser 41 ''add a hat''
                       one_selected))
       = images one_selected
   \<and> images (handleNodeSelect False ''img_2'' ImageNode two_images) = images two_images"
proof -
  let ?r = "handleGenerateImage answering demo_browser 41 ''add a hat'' one_selected"
  note main = masks_cleared_on_success_and_background_click
                [of answering demo_browser 41 "''add a hat''" one_selected EditPath]
  note failed = masks_cleared_on_success_and_background_click
                [of "failing safetyError" demo_browser 41 "''add a hat''" one_selected EditPath
                    False "''img_2''" ImageNode]
  note node = masks_cleared_on_success_and_background_click
                [of answering demo_browser 41 "''add a hat''" two_images EditPath
                    False "''img_2''" ImageNode]
  have out: "outcome ?r = Generated EditPath"
    by (simp add: one_selected_generated)
  have ids: "images (final ?r) \<noteq> []" "img_id (hd (images (final ?r))) = ''img_1''"
    using one_selected_generated_ids by (cases "images (final ?r)"; simp)+
  then have "hd (images (final ?r)) \<in> set (images (final ?r))"
    "img_id (hd (images (final ?r))) \<in> set (selectedImageIds one_selected)"
    by (simp_all add: one_selected_guard)
  then have gen: "maskSrc (hd (images (final ?r))) = None"
    using main out by blast
  have bg: "images (onBackgroundClick one_selected) \<noteq> []"
    "img_id (hd (images (onBackgroundClick one_selected))) = ''img_1''"
    by (simp_all add: onBackgroundClick_def one_selected_guard Let_def image_at_def truthy_def)
  then have "hd (images (onBackgroundClick one_selected)) \<in> set (images (onBackgroundClick one_selected))"
    "img_id (hd (images (onBackgroundClick one_selected))) \<in> set (selectedImageIds one_selected)"
    by (simp_all add: one_selected_guard)
  then have click: "\<not> truthy (maskSrc (hd (images (onBackgroundClick one_selected))))"
    using main by blast
  have blocked: "outcome (handleGenerateImage (failing safetyError) demo_browser 41 ''add a hat''
                            one_selected) = Failed SafetyBlocked"
    by (simp add: one_selected_blocked)
  then have kept: "images (final (handleGenerateImage (failing safetyError) demo_browser 41
                                     ''add a hat'' one_selected)) = images one_selected"
    using failed by simp
  have sel: "images (handleNodeSelect False ''img_2'' ImageNode two_images) = images two_images"
    using node by simp
  have "map maskSrc (images one_selected) = [Some ''data:image/png;base64,TUFTSw=='']"
    by (simp add: one_selected_guard)
  then show ?thesis
    using out gen click main blocked kept sel by simp
qed

text \<open>
  C8 as stated fails twice. A run that fails (here on a safety block at the
  first attempt) leaves the mask of the selected image in place; and selecting
  another image deselects the first one without clearing its mask.
\<close>

theorem masks_cleared_counterexample:
  "outcome (handleGenerateImage (failing safetyError) demo_browser 41 ''add a hat'' one_selected)
     = Failed SafetyBlocked
   \<and> map maskSrc (images (final (handleGenerateImage (failing safetyError) demo_browser 41
                                    ''add a hat'' one_selected)))
       = [Some ''data:image/png;base64,TUFTSw=='']
   \<and> selectedImageIds two_images = [''img_1'']
   \<and> selectedImageIds (handleNodeSelect False ''img_2'' ImageNode two_images) = [''img_2'']
   \<and> map maskSrc (images (handleNodeSelect False ''img_2'' ImageNode two_images))
       = [Some ''data:image/png;base64,TUFTSw=='', None]"
proof -
  have "map maskSrc (images (handleNodeSelect False ''img_2'' ImageNode two_images))
       = [Some ''data:image/png;base64,TUFTSw=='', None]"
    by (simp add: handleNodeSelect_def two_images_def one_selected_guard Let_def image_at_def)
  moreover have "selectedImageIds (handleNodeSelect False ''img_2'' ImageNode two_images) = [''img_2'']"
    by (simp add: handleNodeSelect_def two_images_def one_selected_guard Let_def)
  moreover have "selectedImageIds two_images = [''img_1'']"
    by (simp add: two_images_def one_selected_guard)
  ultimately show ?thesis
    by (simp add: one_selected_blocked one_selected_guard)
qed

section \<open>Retry classification\<close>

lemma one_selected_attempt_throws:
  "attemptBody (failing e) attempt ''add a hat'' None one_selected = Inl e"
  using one_selected_items [of AR_9_16] one_selected_matching
  by (simp add: one_selected_guard attemptBody_def editSelected_def one_selected_valid
      singleStep_def failing_def)

lemma one_selected_failing_guard:
  "''add a hat'' \<noteq> []" "\<not> isLoading one_selected" "apiKey one_selected \<noteq> []"
  "\<And>attempt. attemptBody (failing e) attempt
      (fst (resolvePrompt (failing e) ''add a hat'' (activeModel one_selected)))
      (snd (resolvePrompt (failing e) ''add a hat'' (activeModel one_selected))) one_selected = Inl e"
proof -
  have "resolvePrompt (failing e) ''add a hat'' (activeModel one_selected) = (''add a hat'', None)"
    by (simp add: failing_def)
  then show "\<And>attempt. attemptBody (failing e) attempt
      (fst (resolvePrompt (failing e) ''add a hat'' (activeModel one_selected)))
      (snd (resolvePrompt (failing e) ''add a hat'' (activeModel one_selected))) one_selected = Inl e"
    by (simp add: one_selected_attempt_throws)
qed (simp_all add: one_selected_guard)

lemma quota_run:
  "handleGenerateImage (failing quotaError) br now ''add a hat'' one_selected
     = \<lparr>outcome = Failed QuotaExceeded429,
        final = one_selected\<lparr>isLoading := False, loadingMessage := None,
                              errorMessage := Some QuotaExceeded429\<rparr>,
        slept = [5000, 5000]\<rparr>"
  by (rule always_failing_retries [OF one_selected_failing_guard])
     (simp_all add: onFailure_quotaError)

lemma overload_run:
  "handleGenerateImage (failing overloadError) br now ''add a hat'' one_selected
     = \<lparr>outcome = Failed Overloaded503,
        final = one_selected\<lparr>isLoading := False, loadingMessage := None,
                              errorMessage := Some Overloaded503\<rparr>,
        slept = [1000, 2000]\<rparr>"
  by (rule always_failing_retries [OF one_selected_failing_guard])
     (simp_all add: onFailure_overloadError)

lemma timed_quota_run:
  "handleGenerateImage (failing timedQuotaError) br now ''add a hat'' one_selected
     = \<lparr>outcome = Failed PayloadTooLarge,
        final = one_selected\<lparr>isLoading := False, loadingMessage := None,
                              errorMessage := Some PayloadTooLarge\<rparr>,
        slept = []\<rparr>"
  by (rule always_failing_stops [OF one_selected_failing_guard])
     (simp_all add: onFailure_timedQuotaError)

text \<open>
  The \<open>catch\<close> block looks for the digits 400 anywhere in the message before
  it looks at the code of the error, so every message that holds them stops
  the loop, whatever the code and the attempt.
\<close>

lemma digits_400_stop:
  assumes "attemptBody sv attempt (fst fp) (snd fp) s0 = Inl e"
    and "\<not> isSafetyBlock br e" and "str_includes (msgLower br e) ''400''"
  shows "attemptsLoop sv br now promptText fp s0 (attempt # rest) ended st
     = \<lparr>outcome = Failed PayloadTooLarge,
        final = st\<lparr>errorMessage := Some PayloadTooLarge, isLoading := False, loadingMessage := None\<rparr>,
        slept = []\<rparr>"
  using assms(2,3)
  by (simp add: attemptsLoop_thrown [OF assms(1)] onFailure_def isClientError_def
      del: attemptsLoop.simps)

text \<open>
  C3 fails on the code for a quota error whose message holds the digits 400.
  The error carries code 429 and status RESOURCE_EXHAUSTED, and its message
  gives the time to wait, 54.400s. The \<open>catch\<close> block finds \<open>400\<close> in the
  message (line 833), takes the error for a client error and ends the run at
  the first attempt, without a wait or a retry, with the notice that the image
  data is too large. A quota error without these digits is retried after
  5000 ms twice and ends with the quota notice; an overload error is retried
  after 1000 and 2000 ms.
\<close>

theorem quota_error_with_retry_time_not_retried:
  "parsedError timedQuotaError
     = Some \<lparr>err_code = Some 429, err_status = Some ''RESOURCE_EXHAUSTED'',
             err_message = Some ''Quota exceeded. Please retry in 54.400s.''\<rparr>
   \<and> is429 demo_browser timedQuotaError
   \<and> \<not> isSafetyBlock demo_browser timedQuotaError
   \<and> handleGenerateImage (failing timedQuotaError) demo_browser 41 ''add a hat'' one_selected
       = \<lparr>outcome = Failed PayloadTooLarge,
          final = one_selected\<lparr>isLoading := False, loadingMessage := None,
                                errorMessage := Some PayloadTooLarge\<rparr>,
          slept = []\<rparr>
   \<and> is429 demo_browser quotaError
   \<and> handleGenerateImage (failing quotaError) demo_browser 41 ''add a hat'' one_selected
       = \<lparr>outcome = Failed QuotaExceeded429,
          final = one_selected\<lparr>isLoading := False, loadingMessage := None,
                                errorMessage := Some QuotaExceeded429\<rparr>,
          slept = [5000, 5000]\<rparr>
   \<and> handleGenerateImage (failing overloadError) demo_browser 41 ''add a hat'' one_selected
       = \<lparr>outcome = Failed Overloaded503,
          final = one_selected\<lparr>isLoading := False, loadingMessage := None,
                                errorMessage := Some Overloaded503\<rparr>,
          slept = [1000, 2000]\<rparr>"
  by (simp add: timedQuotaError_def apiError_parts timedQuotaError_class [unfolded timedQuotaError_def]
      quotaError_class timed_quota_run [unfolded timedQuotaError_def] quota_run overload_run)

section \<open>Failed runs and a failed load, on concrete states\<close>

theorem failures_leave_document_unchanged_witness:
  "outcome (handleGenerateImage answering demo_browser 41 ''add a hat'' blank_canvas_selected)
     = Failed GenerationFailed
   \<and> document (final (handleGenerateImage answering demo_browser 41 ''add a hat''
                        blank_canvas_selected))
       = document blank_canvas_selected
   \<and> errorMessage (final (handleGenerateImage answering demo_browser 41 ''add a hat''
                            blank_canvas_selected))
       = Some GenerationFailed
   \<and> outcome (handleGenerateImage (failing safetyError) demo_browser 41 ''add a hat'' one_selected)
       = Failed SafetyBlocked
   \<and> document (final (handleGenerateImage (failing safetyError) demo_browser 41 ''add a hat''
                        one_selected))
       = document one_selected
   \<and> loadProjectFromFile
         \<lparr>file_name = ''broken.story'',
          file_zip = Some \<lparr>project_json = None, assets = Map.empty\<rparr>\<rparr> one_selected
       = (one_selected, Some ''Failed to load project.'')"
proof -
  note a = failures_leave_document_unchanged
             [of answering demo_browser 41 "''add a hat''" blank_canvas_selected GenerationFailed
                 "\<lparr>file_name = ''broken.story'',
                   file_zip = Some \<lparr>project_json = None, assets = Map.empty\<rparr>\<rparr>"
                 "\<lparr>project_json = None, assets = Map.empty\<rparr>"]
  note b = failures_leave_document_unchanged
             [of "failing safetyError" demo_browser 41 "''add a hat''" one_selected SafetyBlocked
                 "\<lparr>file_name = ''broken.story'',
                   file_zip = Some \<lparr>project_json = None, assets = Map.empty\<rparr>\<rparr>"
                 "\<lparr>project_json = None, assets = Map.empty\<rparr>"]
  have o1: "outcome (handleGenerateImage answering demo_browser 41 ''add a hat'' blank_canvas_selected)
     = Failed GenerationFailed"
    by (simp add: blank_canvas_run)
  have o2: "outcome (handleGenerateImage (failing safetyError) demo_browser 41 ''add a hat'' one_selected)
       = Failed SafetyBlocked"
    by (simp add: one_selected_blocked)
  show ?thesis
    using a b o1 o2 by simp
qed

end
